theory Spec2Isabelle
  imports Complex_Main
begin

section \<open>JavaScript values and numbers\<close>

text \<open>
  The three request handlers of the repository (\<^verbatim>\<open>src/api/extract.js\<close>,
  \<^verbatim>\<open>src/unnamed/part_000\<close>, \<^verbatim>\<open>src/unnamed/part_001\<close>) work on the object that
  \<^verbatim>\<open>JSON.parse\<close> returns for the vision model's answer. Numbers are modelled as
  \<^typ>\<open>real\<close>: arithmetic is exact, so rounding and overflow of IEEE doubles are
  outside the model. The metadata fields, which the handlers only test for truthiness
  and copy, are modelled as JavaScript values.
\<close>

datatype jsval =
    JUndefined
  | JNull
  | JBool bool
  | JNum real
  | JStr string
  | JArr "jsval list"
  | JObj "(string \<times> jsval) list"

text \<open>
  ToBoolean: \<^verbatim>\<open>undefined\<close>, \<^verbatim>\<open>null\<close>, \<^verbatim>\<open>false\<close>, \<^verbatim>\<open>0\<close> and \<^verbatim>\<open>""\<close> are falsy; arrays
  and objects are truthy.
\<close>

fun truthy :: "jsval \<Rightarrow> bool" where
  "truthy JUndefined = False"
| "truthy JNull = False"
| "truthy (JBool b) = b"
| "truthy (JNum x) = (x \<noteq> 0)"
| "truthy (JStr s) = (s \<noteq> [])"
| "truthy (JArr xs) = True"
| "truthy (JObj kvs) = True"

text \<open>The operator \<^verbatim>\<open>a || b\<close>.\<close>

definition js_or :: "jsval \<Rightarrow> jsval \<Rightarrow> jsval" where
  "js_or a b = (if truthy a then a else b)"

text \<open>\<^verbatim>\<open>Math.round\<close> rounds half-way cases towards plus infinity.\<close>

definition js_round :: "real \<Rightarrow> int" where
  "js_round x = \<lfloor>x + 1 / 2\<rfloor>"

section \<open>Data model\<close>

text \<open>
  A key waypoint of \<^verbatim>\<open>part_001\<close>: \<^verbatim>\<open>{lat, lng, label, elevation_ft}\<close>. The label is
  never read. The geometry code is modelled for numeric coordinates; the elevation is
  a number or absent (\<^term>\<open>None\<close>).
\<close>

record waypoint =
  lat :: real
  lng :: real
  elevation_ft :: "real option"

text \<open>A point of the output polyline, the array \<^verbatim>\<open>[lat, lng, elev]\<close>.\<close>

type_synonym point = "real \<times> real \<times> real"

definition p_lat :: "point \<Rightarrow> real" where
  "p_lat p = fst p"

definition p_lng :: "point \<Rightarrow> real" where
  "p_lng p = fst (snd p)"

definition p_elev :: "point \<Rightarrow> real" where
  "p_elev p = snd (snd p)"

text \<open>
  \<^verbatim>\<open>wp.elevation_ft || 5300\<close> on a number or a missing field: the number zero is falsy
  and is replaced as well.
\<close>

definition elev_or_default :: "real option \<Rightarrow> real" where
  "elev_or_default e = (case e of None \<Rightarrow> 5300 | Some x \<Rightarrow> if x \<noteq> 0 then x else 5300)"

section \<open>Elevation estimate of \<^verbatim>\<open>part_001\<close>\<close>

text \<open>\<^verbatim>\<open>Math.sqrt((lat - wp.lat) ** 2 + (lng - wp.lng) ** 2)\<close>\<close>

definition planar_dist :: "real \<Rightarrow> real \<Rightarrow> waypoint \<Rightarrow> real" where
  "planar_dist la lo wp = sqrt ((la - lat wp)\<^sup>2 + (lo - lng wp)\<^sup>2)"

text \<open>
  The comparison \<^verbatim>\<open>d < minDist\<close>. The variable starts as \<^verbatim>\<open>Infinity\<close>, modelled by
  \<^term>\<open>None\<close>: every real distance is below it.
\<close>

definition below :: "real \<Rightarrow> real option \<Rightarrow> bool" where
  "below d minDist = (case minDist of None \<Rightarrow> True | Some m \<Rightarrow> d < m)"

text \<open>The loop \<^verbatim>\<open>for (const wp of waypoints)\<close> with its state \<^verbatim>\<open>(minDist, nearestElev)\<close>.\<close>

fun nearest_scan :: "real \<Rightarrow> real \<Rightarrow> waypoint list \<Rightarrow> real option \<times> real \<Rightarrow> real option \<times> real" where
  "nearest_scan la lo [] st = st"
| "nearest_scan la lo (wp # wps) (minDist, nearestElev) =
     (let d = planar_dist la lo wp in
      if below d minDist
      then nearest_scan la lo wps (Some d, elev_or_default (elevation_ft wp))
      else nearest_scan la lo wps (minDist, nearestElev))"

definition nearest_elev :: "waypoint list \<Rightarrow> real \<Rightarrow> real \<Rightarrow> real" where
  "nearest_elev wps la lo = snd (nearest_scan la lo wps (None, 5300))"

text \<open>
  The callback of \<^verbatim>\<open>osrmCoords.map\<close>: the routing engine's pair is \<^verbatim>\<open>[lng, lat]\<close>.
\<close>

definition assign_elevation :: "waypoint list \<Rightarrow> real \<times> real \<Rightarrow> point" where
  "assign_elevation wps coord =
     (let la = snd coord; lo = fst coord in (la, lo, nearest_elev wps la lo))"

text \<open>
  The smoothing loop
  \<^verbatim>\<open>for (let i = 1; i < routeGeometry.length - 1; i++)
    routeGeometry[i][2] = (routeGeometry[i-1][2] + routeGeometry[i][2] + routeGeometry[i+1][2]) / 3;\<close>
  It writes into the array it reads. The test \<^verbatim>\<open>i < length - 1\<close> is written
  \<open>i + 1 < length\<close>, which agrees with it on the empty array too.
\<close>

function smooth_loop :: "nat \<Rightarrow> point list \<Rightarrow> point list" where
  "smooth_loop i g =
     (if i + 1 < length g
      then smooth_loop (i + 1)
             (g[i := (p_lat (g ! i), p_lng (g ! i),
                      (p_elev (g ! (i - 1)) + p_elev (g ! i) + p_elev (g ! (i + 1))) / 3)])
      else g)"
  by pat_completeness auto
termination
  by (relation "measure (\<lambda>(i, g). length g - i)") auto

declare smooth_loop.simps [simp del]

definition smooth_elevation :: "point list \<Rightarrow> point list" where
  "smooth_elevation g = smooth_loop 1 g"

definition estimate_elevation :: "waypoint list \<Rightarrow> (real \<times> real) list \<Rightarrow> point list" where
  "estimate_elevation wps osrmCoords = smooth_elevation (map (assign_elevation wps) osrmCoords)"

section \<open>Fallback interpolation of \<^verbatim>\<open>part_001\<close>\<close>

text \<open>\<^verbatim>\<open>Math.sqrt((b.lat - a.lat) ** 2 + (b.lng - a.lng) ** 2)\<close>\<close>

definition wp_dist :: "waypoint \<Rightarrow> waypoint \<Rightarrow> real" where
  "wp_dist a b = sqrt ((lat b - lat a)\<^sup>2 + (lng b - lng a)\<^sup>2)"

text \<open>\<^verbatim>\<open>Math.max(5, Math.round(dist / 0.002))\<close>\<close>

definition seg_steps :: "waypoint \<Rightarrow> waypoint \<Rightarrow> int" where
  "seg_steps a b = max 5 (js_round (wp_dist a b / 0.002))"

text \<open>The point pushed for the parameter \<open>t\<close> of the segment from \<open>a\<close> to \<open>b\<close>.\<close>

definition interp_point :: "waypoint \<Rightarrow> waypoint \<Rightarrow> real \<Rightarrow> point" where
  "interp_point a b t =
     (lat a + (lat b - lat a) * t,
      lng a + (lng b - lng a) * t,
      elev_or_default (elevation_ft a)
        + (elev_or_default (elevation_ft b) - elev_or_default (elevation_ft a)) * t)"

text \<open>The inner loop \<^verbatim>\<open>for (let s = 0; s < steps; s++)\<close> with \<^verbatim>\<open>t = s / steps\<close>.\<close>

definition segment_points :: "waypoint \<Rightarrow> waypoint \<Rightarrow> point list" where
  "segment_points a b =
     (let steps = seg_steps a b
      in map (\<lambda>s. interp_point a b (real s / real_of_int steps)) [0..<nat steps])"

text \<open>The point pushed after the loops, from \<^verbatim>\<open>waypoints[waypoints.length-1]\<close>.\<close>

definition final_point :: "waypoint list \<Rightarrow> point" where
  "final_point waypoints =
     (let w = waypoints ! (length waypoints - 1)
      in (lat w, lng w, elev_or_default (elevation_ft w)))"

text \<open>
  The outer loop \<^verbatim>\<open>for (let i = 0; i < waypoints.length - 1; i++)\<close> and the final
  push. The handler reaches this code only with two waypoints or more.
\<close>

definition fallback_interpolate :: "waypoint list \<Rightarrow> point list" where
  "fallback_interpolate waypoints =
     concat (map (\<lambda>i. segment_points (waypoints ! i) (waypoints ! (i + 1)))
               [0..<length waypoints - 1])
     @ [final_point waypoints]"

section \<open>The handler of \<^verbatim>\<open>part_001\<close>, from the parsed answer on\<close>

text \<open>
  The answer of the routing engine as the \<^verbatim>\<open>try\<close> block sees it. \<open>Throws\<close>: the
  \<^verbatim>\<open>fetch\<close> rejects or the body is not JSON. A route whose \<^verbatim>\<open>geometry.coordinates\<close>
  cannot be read or mapped (a \<^verbatim>\<open>TypeError\<close>) has \<^term>\<open>None\<close> for its coordinates; a
  coordinate is the pair \<^verbatim>\<open>[lng, lat]\<close>.
\<close>

datatype osrm_route = Route "(real \<times> real) list option"

record osrm_data =
  code :: string
  routes :: "osrm_route list option"

datatype osrm_reply = Throws | Reply osrm_data

text \<open>
  The \<^verbatim>\<open>try\<close>/\<^verbatim>\<open>catch\<close> block: the value of \<^verbatim>\<open>routeGeometry\<close> after it, \<^term>\<open>None\<close>
  for \<^verbatim>\<open>undefined\<close>. The \<^verbatim>\<open>catch\<close> only logs.
\<close>

definition osrm_geometry :: "waypoint list \<Rightarrow> osrm_reply \<Rightarrow> point list option" where
  "osrm_geometry waypoints reply =
     (case reply of
        Throws \<Rightarrow> None
      | Reply osrmData \<Rightarrow>
          (case routes osrmData of
             None \<Rightarrow> None
           | Some rs \<Rightarrow>
               if code osrmData = ''Ok'' \<and> length rs > 0
               then (case rs ! 0 of
                       Route None \<Rightarrow> None
                     | Route (Some osrmCoords) \<Rightarrow> Some (estimate_elevation waypoints osrmCoords))
               else None))"

text \<open>\<^verbatim>\<open>if (!routeGeometry || routeGeometry.length < 10)\<close>: the fallback replaces the geometry.\<close>

definition route_geometry :: "waypoint list \<Rightarrow> osrm_reply \<Rightarrow> point list" where
  "route_geometry waypoints reply =
     (case osrm_geometry waypoints reply of
        None \<Rightarrow> fallback_interpolate waypoints
      | Some g \<Rightarrow> if length g < 10 then fallback_interpolate waypoints else g)"

text \<open>An error response: status, \<^verbatim>\<open>error\<close> and \<^verbatim>\<open>notes\<close>.\<close>

datatype http_error = HttpError nat string jsval

text \<open>
  \<^verbatim>\<open>if (!waypoints || waypoints.length < 2) return res.status(422)...\<close> The field is an
  array or absent (\<^term>\<open>None\<close>); the entries are not looked at, so their type is free.
\<close>

definition validate_key_waypoints :: "'w list option \<Rightarrow> jsval \<Rightarrow> http_error + 'w list" where
  "validate_key_waypoints wps nts =
     (case wps of
        None \<Rightarrow> Inl (HttpError 422 ''Could not identify enough waypoints'' nts)
      | Some ws \<Rightarrow>
          if length ws < 2
          then Inl (HttpError 422 ''Could not identify enough waypoints'' nts)
          else Inr ws)"

text \<open>
  The metadata of the parsed answer. The field \<^verbatim>\<open>notes\<close> is named \<open>notes_txt\<close> here.
\<close>

record route_meta =
  route_name :: jsval
  location :: jsval
  confidence :: jsval
  notes_txt :: jsval

record route_info = route_meta +
  total_miles_estimate :: jsval
  turn_by_turn :: jsval
  key_waypoints :: "waypoint list option"

record route_result =
  res_route_name :: jsval
  res_location :: jsval
  res_confidence :: jsval
  res_notes :: jsval
  res_waypoints :: "point list"

record route_result_osrm = route_result +
  res_total_miles_estimate :: jsval
  res_turn_by_turn :: jsval

definition handler_osrm :: "route_info \<Rightarrow> osrm_reply \<Rightarrow> http_error + route_result_osrm" where
  "handler_osrm routeInfo reply =
     (case validate_key_waypoints (key_waypoints routeInfo) (notes_txt routeInfo) of
        Inl e \<Rightarrow> Inl e
      | Inr wps \<Rightarrow>
          Inr \<lparr> res_route_name = js_or (route_name routeInfo) (JStr ''Extracted Route''),
                res_location = js_or (location routeInfo) (JStr ''Unknown''),
                res_confidence = js_or (confidence routeInfo) (JNum 0.5),
                res_notes = js_or (notes_txt routeInfo) (JStr []),
                res_waypoints = route_geometry wps reply,
                res_total_miles_estimate = js_or (total_miles_estimate routeInfo) (JNum 0),
                res_turn_by_turn = js_or (turn_by_turn routeInfo) (JArr []) \<rparr>)"

section \<open>The handlers of \<^verbatim>\<open>part_000\<close> and \<^verbatim>\<open>extract.js\<close>\<close>

text \<open>
  Here a waypoint is the array \<^verbatim>\<open>[latitude, longitude, elevation]\<close>, a \<^typ>\<open>point\<close>.
  The point pushed for the parameter \<open>t\<close>:
\<close>

definition lerp_point :: "point \<Rightarrow> point \<Rightarrow> real \<Rightarrow> point" where
  "lerp_point a b t =
     (p_lat a + (p_lat b - p_lat a) * t,
      p_lng a + (p_lng b - p_lng a) * t,
      p_elev a + (p_elev b - p_elev a) * t)"

text \<open>
  \<^verbatim>\<open>part_000\<close>, ``ensure at least 100 points'': the branch
  \<^verbatim>\<open>if (waypoints.length < 100)\<close> with \<^verbatim>\<open>targetPoints = Math.max(150, length * 3)\<close> and
  \<^verbatim>\<open>stepsPerSeg = Math.ceil(targetPoints / length)\<close>.
\<close>

definition steps_per_seg :: "nat \<Rightarrow> nat" where
  "steps_per_seg n =
     (let targetPoints = max 150 (n * 3)
      in nat \<lceil>real targetPoints / real n\<rceil>)"

definition density_normalize :: "point list \<Rightarrow> point list" where
  "density_normalize wps =
     (if length wps < 100
      then
        (let stepsPerSeg = steps_per_seg (length wps)
         in concat (map (\<lambda>i. map (\<lambda>s. lerp_point (wps ! i) (wps ! (i + 1))
                                          (real s / real stepsPerSeg))
                                [0..<stepsPerSeg])
                      [0..<length wps - 1])
            @ [wps ! (length wps - 1)])
      else wps)"

text \<open>
  \<^verbatim>\<open>extract.js\<close>: the branch \<^verbatim>\<open>if (waypoints.length < 50)\<close> with
  \<^verbatim>\<open>steps = Math.max(3, Math.ceil(6 / (waypoints.length / 30)))\<close>.
\<close>

definition sparse_steps :: "nat \<Rightarrow> nat" where
  "sparse_steps n = nat (max 3 \<lceil>6 / (real n / 30)\<rceil>)"

definition interpolate_sparse :: "point list \<Rightarrow> point list" where
  "interpolate_sparse wps =
     (if length wps < 50
      then
        concat (map (\<lambda>i. map (\<lambda>s. lerp_point (wps ! i) (wps ! (i + 1))
                                       (real s / real (sparse_steps (length wps))))
                             [0..<sparse_steps (length wps)])
                   [0..<length wps - 1])
        @ [wps ! (length wps - 1)]
      else wps)"

record route_data = route_meta +
  waypoints :: "point list option"

text \<open>
  \<^verbatim>\<open>if (!routeData.waypoints || !Array.isArray(routeData.waypoints) ||
  routeData.waypoints.length < 2) return res.status(422)...\<close>
\<close>

definition validate_waypoints :: "'w list option \<Rightarrow> jsval \<Rightarrow> http_error + 'w list" where
  "validate_waypoints wps nts =
     (case wps of
        None \<Rightarrow> Inl (HttpError 422 ''AI could not extract a valid route from this image''
                       (js_or nts (JStr ''No details available'')))
      | Some ws \<Rightarrow>
          if length ws < 2
          then Inl (HttpError 422 ''AI could not extract a valid route from this image''
                      (js_or nts (JStr ''No details available'')))
          else Inr ws)"

definition assemble :: "route_data \<Rightarrow> point list \<Rightarrow> route_result" where
  "assemble routeData wps =
     \<lparr> res_route_name = js_or (route_name routeData) (JStr ''Extracted Route''),
       res_location = js_or (location routeData) (JStr ''Unknown''),
       res_confidence = js_or (confidence routeData) (JNum 0.5),
       res_notes = js_or (notes_txt routeData) (JStr []),
       res_waypoints = wps \<rparr>"

definition handler_dense :: "route_data \<Rightarrow> http_error + route_result" where
  "handler_dense routeData =
     (case validate_waypoints (waypoints routeData) (notes_txt routeData) of
        Inl e \<Rightarrow> Inl e
      | Inr wps \<Rightarrow> Inr (assemble routeData (density_normalize wps)))"

definition handler_extract :: "route_data \<Rightarrow> http_error + route_result" where
  "handler_extract routeData =
     (case validate_waypoints (waypoints routeData) (notes_txt routeData) of
        Inl e \<Rightarrow> Inl e
      | Inr wps \<Rightarrow> Inr (assemble routeData (interpolate_sparse wps)))"

section \<open>The decoded waypoint before any check\<close>

text \<open>
  A decoded entry of \<^verbatim>\<open>key_waypoints\<close> whose fields may hold any JSON value, and the
  test \<^verbatim>\<open>typeof v === "number"\<close>. No handler makes this test; it states what the
  handlers let through.
\<close>

record raw_waypoint =
  raw_lat :: jsval
  raw_lng :: jsval
  raw_elevation_ft :: jsval

definition is_number :: "jsval \<Rightarrow> bool" where
  "is_number v = (case v of JNum x \<Rightarrow> True | _ \<Rightarrow> False)"

section \<open>\<^verbatim>\<open>part_001\<close> on the numbers of JavaScript\<close>

text \<open>
  The definitions above compute with exact reals on well-formed input; what they say
  about the points that are kept, about their latitude and longitude and about the
  values that \<^verbatim>\<open>||\<close> replaces does not depend on rounding. JavaScript computes with IEEE
  doubles, which round, overflow to \<^verbatim>\<open>Infinity\<close> and yield \<^verbatim>\<open>NaN\<close>, and the routing
  engine's answer is whatever JSON value arrives. For what depends on either, this
  section follows the same lines of \<^verbatim>\<open>part_001\<close> again with
  \<^item> a number that is finite (a real stands for the double that it is), an infinity or
    \<^verbatim>\<open>NaN\<close>;
  \<^item> the operations that round (\<^verbatim>\<open>+ - * /\<close>, \<^verbatim>\<open>** 2\<close>, \<^verbatim>\<open>Math.sqrt\<close>), the literal
    \<^verbatim>\<open>0.002\<close> and the conversion of strings, arrays and objects to numbers taken as
    parameters, so that what is proved holds for whatever the platform computes;
  \<^item> the operations that do not round (\<^verbatim>\<open><\<close>, \<^verbatim>\<open>Math.round\<close>, \<^verbatim>\<open>Math.max\<close>) defined;
  \<^item> the routing engine's answer as a JSON value, with a \<^verbatim>\<open>TypeError\<close> as \<^term>\<open>None\<close>.
  The key waypoints stay records with numeric coordinates; their numbers and those of
  a JSON value are finite.
\<close>

datatype jsnum = Fin real | PosInf | NegInf | NaN

text \<open>\<^verbatim>\<open>a < b\<close> on numbers: false as soon as one of them is \<^verbatim>\<open>NaN\<close>.\<close>

fun js_lt :: "jsnum \<Rightarrow> jsnum \<Rightarrow> bool" where
  "js_lt (Fin x) (Fin y) = (x < y)"
| "js_lt (Fin x) PosInf = True"
| "js_lt NegInf (Fin y) = True"
| "js_lt NegInf PosInf = True"
| "js_lt _ _ = False"

text \<open>
  \<^verbatim>\<open>Math.round\<close>: the integer nearest to the number, half-way cases towards plus
  infinity; infinities and \<^verbatim>\<open>NaN\<close> are returned as they are.
\<close>

fun math_round :: "jsnum \<Rightarrow> jsnum" where
  "math_round (Fin x) = Fin (of_int \<lfloor>x + 1 / 2\<rfloor>)"
| "math_round PosInf = PosInf"
| "math_round NegInf = NegInf"
| "math_round NaN = NaN"

text \<open>\<^verbatim>\<open>Math.max\<close> of two numbers: \<^verbatim>\<open>NaN\<close> if one of them is, the larger one otherwise.\<close>

definition math_max :: "jsnum \<Rightarrow> jsnum \<Rightarrow> jsnum" where
  "math_max a b = (if a = NaN \<or> b = NaN then NaN else if js_lt a b then b else a)"

text \<open>
  The platform's arithmetic: \<open>other_to_number\<close> is ToNumber on a string, an array or
  an object; \<open>fsquare\<close> is \<^verbatim>\<open>x ** 2\<close>; \<open>spacing\<close> is the double that the literal
  \<^verbatim>\<open>0.002\<close> denotes.
\<close>

record arith =
  other_to_number :: "jsval \<Rightarrow> jsnum"
  fadd :: "jsnum \<Rightarrow> jsnum \<Rightarrow> jsnum"
  fsub :: "jsnum \<Rightarrow> jsnum \<Rightarrow> jsnum"
  fmul :: "jsnum \<Rightarrow> jsnum \<Rightarrow> jsnum"
  fdiv :: "jsnum \<Rightarrow> jsnum \<Rightarrow> jsnum"
  fsquare :: "jsnum \<Rightarrow> jsnum"
  fsqrt :: "jsnum \<Rightarrow> jsnum"
  spacing :: jsnum

text \<open>ToNumber, applied by \<^verbatim>\<open>-\<close> to its operands.\<close>

definition to_number :: "arith \<Rightarrow> jsval \<Rightarrow> jsnum" where
  "to_number A v =
     (case v of
        JUndefined \<Rightarrow> NaN
      | JNull \<Rightarrow> Fin 0
      | JBool b \<Rightarrow> Fin (if b then 1 else 0)
      | JNum x \<Rightarrow> Fin x
      | _ \<Rightarrow> other_to_number A v)"

text \<open>
  Reading a property, \<^verbatim>\<open>v.key\<close>, of a JSON value: a \<^verbatim>\<open>TypeError\<close> on \<^verbatim>\<open>undefined\<close> and
  \<^verbatim>\<open>null\<close>; arrays and strings have a \<^verbatim>\<open>length\<close>; an object holds each key once.
\<close>

fun js_member :: "jsval \<Rightarrow> string \<Rightarrow> jsval option" where
  "js_member JUndefined k = None"
| "js_member JNull k = None"
| "js_member (JObj kvs) k = Some (case map_of kvs k of None \<Rightarrow> JUndefined | Some v \<Rightarrow> v)"
| "js_member (JArr xs) k = Some (if k = ''length'' then JNum (real (length xs)) else JUndefined)"
| "js_member (JStr s) k = Some (if k = ''length'' then JNum (real (length s)) else JUndefined)"
| "js_member (JBool b) k = Some JUndefined"
| "js_member (JNum x) k = Some JUndefined"

text \<open>
  Indexing, \<^verbatim>\<open>v[i]\<close>; the code indexes with 0 and 1 only, the property names \<^verbatim>\<open>"0"\<close>
  and \<^verbatim>\<open>"1"\<close> of an object.
\<close>

fun js_index :: "jsval \<Rightarrow> nat \<Rightarrow> jsval option" where
  "js_index JUndefined i = None"
| "js_index JNull i = None"
| "js_index (JArr xs) i = Some (if i < length xs then xs ! i else JUndefined)"
| "js_index (JStr s) i = Some (if i < length s then JStr [s ! i] else JUndefined)"
| "js_index (JObj kvs) i =
     Some (case map_of kvs (if i = 0 then ''0'' else ''1'') of None \<Rightarrow> JUndefined | Some v \<Rightarrow> v)"
| "js_index (JBool b) i = Some JUndefined"
| "js_index (JNum x) i = Some JUndefined"

text \<open>
  \<^verbatim>\<open>Math.sqrt((lat - wp.lat) ** 2 + (lng - wp.lng) ** 2)\<close>, where \<^verbatim>\<open>lat\<close> and \<^verbatim>\<open>lng\<close> are
  what the coordinate holds at index 1 and 0.
\<close>

definition planar_dist_js :: "arith \<Rightarrow> jsval \<Rightarrow> jsval \<Rightarrow> waypoint \<Rightarrow> jsnum" where
  "planar_dist_js A la lo wp =
     fsqrt A (fadd A (fsquare A (fsub A (to_number A la) (Fin (lat wp))))
                     (fsquare A (fsub A (to_number A lo) (Fin (lng wp)))))"

text \<open>The scan for the nearest waypoint; \<^verbatim>\<open>minDist\<close> starts as \<^verbatim>\<open>Infinity\<close>.\<close>

fun nearest_scan_js ::
  "arith \<Rightarrow> jsval \<Rightarrow> jsval \<Rightarrow> waypoint list \<Rightarrow> jsnum \<times> real \<Rightarrow> jsnum \<times> real" where
  "nearest_scan_js A la lo [] st = st"
| "nearest_scan_js A la lo (wp # wps) (minDist, nearestElev) =
     (let d = planar_dist_js A la lo wp in
      if js_lt d minDist
      then nearest_scan_js A la lo wps (d, elev_or_default (elevation_ft wp))
      else nearest_scan_js A la lo wps (minDist, nearestElev))"

definition nearest_elev_js :: "arith \<Rightarrow> waypoint list \<Rightarrow> jsval \<Rightarrow> jsval \<Rightarrow> real" where
  "nearest_elev_js A wps la lo = snd (nearest_scan_js A la lo wps (PosInf, 5300))"

text \<open>
  A point of the snapped geometry: latitude and longitude as found in the coordinate,
  and the elevation, a number.
\<close>

type_synonym snapped_point = "jsval \<times> jsval \<times> jsnum"

definition sp_elev :: "snapped_point \<Rightarrow> jsnum" where
  "sp_elev p = snd (snd p)"

text \<open>The callback of \<^verbatim>\<open>osrmCoords.map\<close>; it throws on a coordinate that is \<^verbatim>\<open>null\<close>.\<close>

definition assign_elevation_js :: "arith \<Rightarrow> waypoint list \<Rightarrow> jsval \<Rightarrow> snapped_point option" where
  "assign_elevation_js A wps coord =
     (case js_index coord 1 of
        None \<Rightarrow> None
      | Some la \<Rightarrow>
          (case js_index coord 0 of
             None \<Rightarrow> None
           | Some lo \<Rightarrow> Some (la, lo, Fin (nearest_elev_js A wps la lo))))"

text \<open>The smoothing loop, with the sum and the quotient as the platform computes them.\<close>

function smooth_loop_js :: "arith \<Rightarrow> nat \<Rightarrow> snapped_point list \<Rightarrow> snapped_point list" where
  "smooth_loop_js A i g =
     (if i + 1 < length g
      then smooth_loop_js A (i + 1)
             (g[i := (fst (g ! i), fst (snd (g ! i)),
                      fdiv A (fadd A (fadd A (sp_elev (g ! (i - 1))) (sp_elev (g ! i)))
                                     (sp_elev (g ! (i + 1))))
                             (Fin 3))])
      else g)"
  by pat_completeness auto
termination
  by (relation "measure (\<lambda>(A, i, g). length g - i)") auto

declare smooth_loop_js.simps [simp del]

text \<open>
  Nearest-waypoint assignment for every coordinate, then smoothing; \<^term>\<open>None\<close> when a
  coordinate makes the callback throw.
\<close>

definition estimate_elevation_js ::
  "arith \<Rightarrow> waypoint list \<Rightarrow> jsval list \<Rightarrow> snapped_point list option" where
  "estimate_elevation_js A wps osrmCoords =
     (case those (map (assign_elevation_js A wps) osrmCoords) of
        None \<Rightarrow> None
      | Some g \<Rightarrow> Some (smooth_loop_js A 1 g))"

text \<open>
  The routing engine's answer: the request or the decoding throws, or a JSON value
  arrives.
\<close>

datatype osrm_reply_js = ThrowsJ | ReplyJ jsval

text \<open>
  From \<^verbatim>\<open>osrmData.code === 'Ok' && osrmData.routes && osrmData.routes.length > 0\<close> to the
  call of \<^verbatim>\<open>osrmCoords.map\<close>: the array of coordinates, or \<^term>\<open>None\<close> when the test
  fails or a step throws (reading a property of \<^verbatim>\<open>undefined\<close> or \<^verbatim>\<open>null\<close>, or \<^verbatim>\<open>map\<close> on
  a value that is not an array). Either way \<^verbatim>\<open>routeGeometry\<close> stays \<^verbatim>\<open>undefined\<close>.
\<close>

definition osrm_coordinates :: "arith \<Rightarrow> jsval \<Rightarrow> jsval list option" where
  "osrm_coordinates A osrmData =
     (case js_member osrmData ''code'' of
        None \<Rightarrow> None
      | Some c \<Rightarrow>
          if c \<noteq> JStr ''Ok'' then None
          else
            (case js_member osrmData ''routes'' of
               None \<Rightarrow> None
             | Some rs \<Rightarrow>
                 if \<not> truthy rs then None
                 else
                   (case js_member rs ''length'' of
                      None \<Rightarrow> None
                    | Some n \<Rightarrow>
                        if \<not> js_lt (Fin 0) (to_number A n) then None
                        else
                          (case Option.bind (Option.bind (js_index rs 0)
                                                (\<lambda>r. js_member r ''geometry''))
                                  (\<lambda>g. js_member g ''coordinates'') of
                             None \<Rightarrow> None
                           | Some osrmCoords \<Rightarrow>
                               (case js_member osrmCoords ''length'' of
                                  None \<Rightarrow> None
                                | Some l \<Rightarrow>
                                    (case osrmCoords of
                                       JArr cs \<Rightarrow> Some cs
                                     | _ \<Rightarrow> None))))))"

text \<open>The \<^verbatim>\<open>try\<close>/\<^verbatim>\<open>catch\<close> block: the value of \<^verbatim>\<open>routeGeometry\<close> after it.\<close>

definition osrm_geometry_js ::
  "arith \<Rightarrow> waypoint list \<Rightarrow> osrm_reply_js \<Rightarrow> snapped_point list option" where
  "osrm_geometry_js A wps reply =
     (case reply of
        ThrowsJ \<Rightarrow> None
      | ReplyJ osrmData \<Rightarrow>
          (case osrm_coordinates A osrmData of
             None \<Rightarrow> None
           | Some osrmCoords \<Rightarrow> estimate_elevation_js A wps osrmCoords))"

text \<open>
  The fallback: \<^verbatim>\<open>dist\<close>, \<^verbatim>\<open>steps = Math.max(5, Math.round(dist / 0.002))\<close> and the point
  pushed for \<^verbatim>\<open>t\<close>.
\<close>

definition wp_dist_js :: "arith \<Rightarrow> waypoint \<Rightarrow> waypoint \<Rightarrow> jsnum" where
  "wp_dist_js A a b =
     fsqrt A (fadd A (fsquare A (fsub A (Fin (lat b)) (Fin (lat a))))
                     (fsquare A (fsub A (Fin (lng b)) (Fin (lng a)))))"

definition seg_steps_js :: "arith \<Rightarrow> waypoint \<Rightarrow> waypoint \<Rightarrow> jsnum" where
  "seg_steps_js A a b = math_max (Fin 5) (math_round (fdiv A (wp_dist_js A a b) (spacing A)))"

type_synonym interpolated_point = "jsnum \<times> jsnum \<times> jsnum"

definition interp_point_js :: "arith \<Rightarrow> waypoint \<Rightarrow> waypoint \<Rightarrow> jsnum \<Rightarrow> interpolated_point" where
  "interp_point_js A a b t =
     (fadd A (Fin (lat a)) (fmul A (fsub A (Fin (lat b)) (Fin (lat a))) t),
      fadd A (Fin (lng a)) (fmul A (fsub A (Fin (lng b)) (Fin (lng a))) t),
      fadd A (Fin (elev_or_default (elevation_ft a)))
             (fmul A (fsub A (Fin (elev_or_default (elevation_ft b)))
                             (Fin (elev_or_default (elevation_ft a)))) t))"

text \<open>
  An array holds at most \<open>2\<^sup>3\<^sup>2 - 1\<close> elements, and \<^verbatim>\<open>push\<close> on a full array throws a
  \<^verbatim>\<open>RangeError\<close>. No other limit of memory is modelled.
\<close>

definition array_limit :: nat where
  "array_limit = 4294967295"

text \<open>
  The inner loop \<^verbatim>\<open>for (let s = 0; s < steps; s++)\<close> with \<^verbatim>\<open>t = s / steps\<close>: the points
  it pushes. For a finite bound it runs once for every natural number below the bound;
  for the bound \<^verbatim>\<open>NaN\<close> it does not run. The result is \<^term>\<open>None\<close> when the loop cannot
  complete because a \<^verbatim>\<open>push\<close> throws: for the bound \<^verbatim>\<open>Infinity\<close>, and for a bound above
  the number of elements an array holds.
\<close>

definition segment_points_js :: "arith \<Rightarrow> waypoint \<Rightarrow> waypoint \<Rightarrow> interpolated_point list option" where
  "segment_points_js A a b =
     (case seg_steps_js A a b of
        Fin n \<Rightarrow>
          if n \<le> real array_limit
          then Some (map (\<lambda>s. interp_point_js A a b (fdiv A (Fin (real s)) (Fin n)))
                       [0..<nat \<lceil>n\<rceil>])
          else None
      | PosInf \<Rightarrow> None
      | NegInf \<Rightarrow> Some []
      | NaN \<Rightarrow> Some [])"

definition final_point_js :: "waypoint list \<Rightarrow> interpolated_point" where
  "final_point_js wps =
     (let w = wps ! (length wps - 1)
      in (Fin (lat w), Fin (lng w), Fin (elev_or_default (elevation_ft w))))"

text \<open>
  The outer loop and the final push, all into the one array \<^verbatim>\<open>routeGeometry\<close>;
  \<^term>\<open>None\<close> when a \<^verbatim>\<open>push\<close> throws.
\<close>

definition fallback_interpolate_js :: "arith \<Rightarrow> waypoint list \<Rightarrow> interpolated_point list option" where
  "fallback_interpolate_js A wps =
     (case those (map (\<lambda>i. segment_points_js A (wps ! i) (wps ! (i + 1)))
                      [0..<length wps - 1]) of
        None \<Rightarrow> None
      | Some segs \<Rightarrow>
          if length (concat segs) + 1 \<le> array_limit
          then Some (concat segs @ [final_point_js wps])
          else None)"

text \<open>
  \<^verbatim>\<open>routeGeometry\<close> after \<^verbatim>\<open>if (!routeGeometry || routeGeometry.length < 10)\<close>, tagged
  with the branch that produced it; \<^term>\<open>None\<close> when a \<^verbatim>\<open>push\<close> of the fallback throws.
\<close>

datatype geometry_js = Snapped "snapped_point list" | Interpolated "interpolated_point list"

definition route_geometry_js :: "arith \<Rightarrow> waypoint list \<Rightarrow> osrm_reply_js \<Rightarrow> geometry_js option" where
  "route_geometry_js A wps reply =
     (case osrm_geometry_js A wps reply of
        None \<Rightarrow> map_option Interpolated (fallback_interpolate_js A wps)
      | Some g \<Rightarrow>
          if length g < 10 then map_option Interpolated (fallback_interpolate_js A wps)
          else Some (Snapped g))"

record route_answer =
  ans_route_name :: jsval
  ans_location :: jsval
  ans_confidence :: jsval
  ans_notes :: jsval
  ans_total_miles_estimate :: jsval
  ans_turn_by_turn :: jsval
  ans_waypoints :: geometry_js

text \<open>
  The handler from the parsed answer on. The result is \<^term>\<open>None\<close> when a \<^verbatim>\<open>push\<close> of the
  fallback throws: the outer \<^verbatim>\<open>catch\<close> then answers with status 500 and the message of
  the error, which differs between engines.
\<close>

definition handler_osrm_js ::
  "arith \<Rightarrow> route_info \<Rightarrow> osrm_reply_js \<Rightarrow> (http_error + route_answer) option" where
  "handler_osrm_js A routeInfo reply =
     (case validate_key_waypoints (key_waypoints routeInfo) (notes_txt routeInfo) of
        Inl e \<Rightarrow> Some (Inl e)
      | Inr wps \<Rightarrow>
          (case route_geometry_js A wps reply of
             None \<Rightarrow> None
           | Some g \<Rightarrow>
               Some (Inr \<lparr> ans_route_name = js_or (route_name routeInfo) (JStr ''Extracted Route''),
                           ans_location = js_or (location routeInfo) (JStr ''Unknown''),
                           ans_confidence = js_or (confidence routeInfo) (JNum 0.5),
                           ans_notes = js_or (notes_txt routeInfo) (JStr []),
                           ans_total_miles_estimate =
                             js_or (total_miles_estimate routeInfo) (JNum 0),
                           ans_turn_by_turn = js_or (turn_by_turn routeInfo) (JArr []),
                           ans_waypoints = g \<rparr>)))"

subsection \<open>Exact arithmetic as one instance\<close>

text \<open>
  Arithmetic without rounding, with the rules of IEEE for infinities and \<^verbatim>\<open>NaN\<close> (the
  sign of zero apart). It agrees with the doubles wherever the exact result is a double,
  and serves to evaluate the definitions on such inputs. Strings, arrays and objects
  are read as \<^verbatim>\<open>NaN\<close> here; the inputs evaluated below hold none.
\<close>

fun ex_neg :: "jsnum \<Rightarrow> jsnum" where
  "ex_neg (Fin x) = Fin (- x)"
| "ex_neg PosInf = NegInf"
| "ex_neg NegInf = PosInf"
| "ex_neg NaN = NaN"

fun ex_add :: "jsnum \<Rightarrow> jsnum \<Rightarrow> jsnum" where
  "ex_add (Fin x) (Fin y) = Fin (x + y)"
| "ex_add (Fin x) PosInf = PosInf"
| "ex_add (Fin x) NegInf = NegInf"
| "ex_add PosInf (Fin y) = PosInf"
| "ex_add PosInf PosInf = PosInf"
| "ex_add NegInf (Fin y) = NegInf"
| "ex_add NegInf NegInf = NegInf"
| "ex_add _ _ = NaN"

definition ex_sub :: "jsnum \<Rightarrow> jsnum \<Rightarrow> jsnum" where
  "ex_sub a b = ex_add a (ex_neg b)"

text \<open>The sign of a number and the infinity of a sign (\<^verbatim>\<open>NaN\<close> for the sign 0).\<close>

fun sign_of :: "jsnum \<Rightarrow> real" where
  "sign_of (Fin x) = sgn x"
| "sign_of PosInf = 1"
| "sign_of NegInf = - 1"
| "sign_of NaN = 0"

definition inf_of_sign :: "real \<Rightarrow> jsnum" where
  "inf_of_sign s = (if 0 < s then PosInf else if s < 0 then NegInf else NaN)"

fun ex_mul :: "jsnum \<Rightarrow> jsnum \<Rightarrow> jsnum" where
  "ex_mul (Fin x) (Fin y) = Fin (x * y)"
| "ex_mul NaN b = NaN"
| "ex_mul a NaN = NaN"
| "ex_mul a b = inf_of_sign (sign_of a * sign_of b)"

fun ex_div :: "jsnum \<Rightarrow> jsnum \<Rightarrow> jsnum" where
  "ex_div (Fin x) (Fin y) = (if y = 0 then inf_of_sign (sgn x) else Fin (x / y))"
| "ex_div NaN b = NaN"
| "ex_div a NaN = NaN"
| "ex_div (Fin x) b = Fin 0"
| "ex_div a (Fin y) = inf_of_sign (sign_of a * (if y < 0 then - 1 else 1))"
| "ex_div a b = NaN"

fun ex_sqrt :: "jsnum \<Rightarrow> jsnum" where
  "ex_sqrt (Fin x) = (if x < 0 then NaN else Fin (sqrt x))"
| "ex_sqrt PosInf = PosInf"
| "ex_sqrt NegInf = NaN"
| "ex_sqrt NaN = NaN"

definition exact :: arith where
  "exact =
     \<lparr> other_to_number = (\<lambda>v. NaN),
       fadd = ex_add, fsub = ex_sub, fmul = ex_mul, fdiv = ex_div,
       fsquare = (\<lambda>a. ex_mul a a), fsqrt = ex_sqrt,
       spacing = Fin 0.002 \<rparr>"

section \<open>The smoothing loop\<close>

lemma smooth_loop_length [simp]: "length (smooth_loop i g) = length g"
  by (induction i g rule: smooth_loop.induct) (subst smooth_loop.simps, simp)

lemma smooth_loop_before: "j < i \<Longrightarrow> smooth_loop i g ! j = g ! j"
proof (induction i g rule: smooth_loop.induct)
  case (1 i g)
  show ?case
  proof (cases "i + 1 < length g")
    case True
    with 1 show ?thesis by (subst smooth_loop.simps) simp
  next
    case False
    then show ?thesis by (subst smooth_loop.simps) simp
  qed
qed

lemma smooth_loop_last: "j + 1 \<ge> length g \<Longrightarrow> smooth_loop i g ! j = g ! j"
proof (induction i g rule: smooth_loop.induct)
  case (1 i g)
  show ?case
  proof (cases "i + 1 < length g")
    case True
    with 1 show ?thesis by (subst smooth_loop.simps) simp
  next
    case False
    then show ?thesis by (subst smooth_loop.simps) simp
  qed
qed

lemma smooth_loop_lat_lng:
  "j < length g \<Longrightarrow> p_lat (smooth_loop i g ! j) = p_lat (g ! j) \<and> p_lng (smooth_loop i g ! j) = p_lng (g ! j)"
proof (induction i g rule: smooth_loop.induct)
  case (1 i g)
  show ?case
  proof (cases "i + 1 < length g")
    case True
    with 1 show ?thesis
      by (subst (1 2) smooth_loop.simps) (simp add: nth_list_update p_lat_def p_lng_def)
  next
    case False
    then show ?thesis by (subst (1 2) smooth_loop.simps) simp
  qed
qed

lemma smooth_loop_elev:
  "1 \<le> i \<Longrightarrow> i \<le> j \<Longrightarrow> j + 1 < length g \<Longrightarrow>
   p_elev (smooth_loop i g ! j) =
     (p_elev (smooth_loop i g ! (j - 1)) + p_elev (g ! j) + p_elev (g ! (j + 1))) / 3"
proof (induction i g rule: smooth_loop.induct)
  case (1 i g)
  let ?g' = "g[i := (p_lat (g ! i), p_lng (g ! i),
                      (p_elev (g ! (i - 1)) + p_elev (g ! i) + p_elev (g ! (i + 1))) / 3)]"
  from 1 have lt: "i + 1 < length g" by simp
  then have unf: "smooth_loop i g = smooth_loop (i + 1) ?g'"
    by (subst smooth_loop.simps) simp
  show ?case
  proof (cases "j = i")
    case True
    have a: "smooth_loop (i + 1) ?g' ! i = ?g' ! i"
      by (rule smooth_loop_before) simp
    have b: "smooth_loop (i + 1) ?g' ! (i - 1) = ?g' ! (i - 1)"
      by (rule smooth_loop_before) simp
    from 1 lt True show ?thesis
      unfolding unf by (simp only: a b) (simp add: p_elev_def)
  next
    case False
    with 1 have "i + 1 \<le> j" by simp
    with 1 lt have "p_elev (smooth_loop (i + 1) ?g' ! j) =
     (p_elev (smooth_loop (i + 1) ?g' ! (j - 1)) + p_elev (?g' ! j) + p_elev (?g' ! (j + 1))) / 3"
      by simp
    with False \<open>i + 1 \<le> j\<close> show ?thesis
      by (simp add: unf)
  qed
qed

section \<open>The fallback polyline\<close>













section \<open>The handlers and the routing engine's answer\<close>

lemma validate_key_waypoints_ok:
  "2 \<le> length ws \<Longrightarrow> validate_key_waypoints (Some ws) n = Inr ws"
  by (simp add: validate_key_waypoints_def)

lemma validate_waypoints_ok:
  "2 \<le> length ws \<Longrightarrow> validate_waypoints (Some ws) n = Inr ws"
  by (simp add: validate_waypoints_def)

lemma handler_osrm_ok:
  assumes "key_waypoints ri = Some wps" and "2 \<le> length wps"
  shows "handler_osrm ri reply =
     Inr \<lparr> res_route_name = js_or (route_name ri) (JStr ''Extracted Route''),
           res_location = js_or (location ri) (JStr ''Unknown''),
           res_confidence = js_or (confidence ri) (JNum 0.5),
           res_notes = js_or (notes_txt ri) (JStr []),
           res_waypoints = route_geometry wps reply,
           res_total_miles_estimate = js_or (total_miles_estimate ri) (JNum 0),
           res_turn_by_turn = js_or (turn_by_turn ri) (JArr []) \<rparr>"
  using assms by (simp add: handler_osrm_def validate_key_waypoints_ok)

lemma handler_osrm_Inr:
  assumes "handler_osrm ri reply = Inr r"
  shows "\<exists>wps. key_waypoints ri = Some wps \<and> 2 \<le> length wps"
  using assms
  by (auto simp: handler_osrm_def validate_key_waypoints_def split: option.splits if_splits)

lemma handler_extract_Inr:
  assumes "handler_extract rd = Inr r"
  shows "\<exists>wps. waypoints rd = Some wps \<and> 2 \<le> length wps \<and> r = assemble rd (interpolate_sparse wps)"
  using assms
  by (auto simp: handler_extract_def validate_waypoints_def split: option.splits if_splits)

lemma handler_dense_Inr:
  assumes "handler_dense rd = Inr r"
  shows "\<exists>wps. waypoints rd = Some wps \<and> 2 \<le> length wps \<and> r = assemble rd (density_normalize wps)"
  using assms
  by (auto simp: handler_dense_def validate_waypoints_def split: option.splits if_splits)

lemma js_or_truthy: "truthy a \<Longrightarrow> js_or a b = a"
  by (simp add: js_or_def)

lemma js_or_falsy: "\<not> truthy a \<Longrightarrow> js_or a b = b"
  by (simp add: js_or_def)

lemma osrm_geometry_snapped:
  assumes "code d = ''Ok''" and "routes d = Some (Route (Some cs) # rest)" and "10 \<le> length cs"
  shows "route_geometry wps (Reply d) = estimate_elevation wps cs"
proof -
  have len: "length (estimate_elevation wps cs) = length cs"
    by (simp add: estimate_elevation_def smooth_elevation_def)
  from assms show ?thesis
    by (simp add: route_geometry_def osrm_geometry_def len)
qed

lemma smooth_loop_coords:
  "map (\<lambda>p. (p_lat p, p_lng p)) (smooth_loop i g) = map (\<lambda>p. (p_lat p, p_lng p)) g"
  by (rule nth_equalityI) (simp_all add: smooth_loop_lat_lng)

lemma assign_elevation_coords:
  "map (\<lambda>p. (p_lat p, p_lng p)) (map (assign_elevation wps) cs) = map (\<lambda>c. (snd c, fst c)) cs"
  by (simp add: assign_elevation_def p_lat_def p_lng_def Let_def)

lemma estimate_elevation_coords:
  "map (\<lambda>p. (p_lat p, p_lng p)) (estimate_elevation wps cs) = map (\<lambda>c. (snd c, fst c)) cs"
  unfolding estimate_elevation_def smooth_elevation_def smooth_loop_coords
  by (rule assign_elevation_coords)

lemma length_estimate_elevation: "length (estimate_elevation wps cs) = length cs"
  by (simp add: estimate_elevation_def smooth_elevation_def)

section \<open>The resampling of \<^verbatim>\<open>part_000\<close>\<close>

lemma length_density_normalize:
  "length wps < 100 \<Longrightarrow>
   length (density_normalize wps) = (length wps - 1) * steps_per_seg (length wps) + 1"
  by (simp add: density_normalize_def Let_def length_concat comp_def sum_list_triv)

lemma steps_per_seg_2: "steps_per_seg 2 = 75"
  by (simp add: steps_per_seg_def)

lemma steps_per_seg_76: "steps_per_seg 76 = 3"
  by (simp add: steps_per_seg_def)

lemma density_normalize_unchanged: "100 \<le> length wps \<Longrightarrow> density_normalize wps = wps"
  by (simp add: density_normalize_def)

lemma steps_per_seg_ge:
  assumes "0 < n"
  shows "150 / real n \<le> real (steps_per_seg n)"
proof -
  have "150 / real n \<le> real (max 150 (n * 3)) / real n"
    using assms by (simp add: divide_right_mono)
  also have "\<dots> \<le> real_of_int \<lceil>real (max 150 (n * 3)) / real n\<rceil>"
    by (rule le_of_int_ceiling)
  also have "\<dots> \<le> real (nat \<lceil>real (max 150 (n * 3)) / real n\<rceil>)"
    by simp
  finally show ?thesis by (simp add: steps_per_seg_def Let_def)
qed

text \<open>From three points on the resampled sequence reaches the threshold of 100 points.\<close>

lemma density_normalize_reaches_threshold:
  assumes "3 \<le> length wps" and "length wps < 100"
  shows "100 \<le> length (density_normalize wps)"
proof -
  let ?n = "length wps"
  from assms have n: "0 < ?n" by linarith
  from assms(1) have rn: "3 \<le> real ?n" by simp
  from n have "1 \<le> ?n" by linarith
  then have d: "real (?n - 1) = real ?n - 1" by (metis of_nat_1 of_nat_diff)
  from rn have "100 * real ?n \<le> (real ?n - 1) * 150" by simp
  with n have "100 \<le> (real ?n - 1) * 150 / real ?n" by (simp add: pos_le_divide_eq)
  then have "100 \<le> real (?n - 1) * (150 / real ?n)" unfolding d by simp
  also have "\<dots> \<le> real (?n - 1) * real (steps_per_seg ?n)"
    by (rule mult_left_mono [OF steps_per_seg_ge [OF n]]) simp
  finally have "100 \<le> real ((?n - 1) * steps_per_seg ?n)" by (simp only: of_nat_mult)
  then have "100 \<le> (?n - 1) * steps_per_seg ?n" by linarith
  then show ?thesis by (simp add: length_density_normalize [OF assms(2)])
qed

lemma density_normalize_idempotent_from_three:
  "3 \<le> length wps \<Longrightarrow>
   density_normalize (density_normalize wps) = density_normalize wps"
  by (cases "length wps < 100")
     (simp_all add: density_normalize_unchanged density_normalize_reaches_threshold)

text \<open>The resampling never returns fewer points than it was given.\<close>

lemma density_normalize_never_shorter: "length wps \<le> length (density_normalize wps)"
proof (cases "length wps < 100")
  case False
  then show ?thesis by (simp add: density_normalize_def)
next
  case True
  show ?thesis
  proof (cases "wps = []")
    case True
    then show ?thesis by simp
  next
    case False
    then have n: "0 < length wps" by simp
    then have "0 < 150 / real (length wps)" by simp
    with steps_per_seg_ge [OF n] have "0 < real (steps_per_seg (length wps))" by linarith
    then have "1 \<le> steps_per_seg (length wps)" by simp
    then have "(length wps - 1) * 1 \<le> (length wps - 1) * steps_per_seg (length wps)"
      by (rule mult_le_mono2)
    then have "length wps - 1 \<le> (length wps - 1) * steps_per_seg (length wps)"
      by (simp only: mult_1_right)
    with n have "length wps \<le> (length wps - 1) * steps_per_seg (length wps) + 1"
      by linarith
    then show ?thesis by (simp only: length_density_normalize [OF True])
  qed
qed

section \<open>The scan for the nearest waypoint on the numbers of JavaScript\<close>




lemma js_lt_no_candidate: "\<not> js_lt d PosInf \<Longrightarrow> \<not> js_lt d x"
  by (cases d; cases x) auto

lemma js_lt_PosInf_iff: "js_lt d PosInf \<longleftrightarrow> (\<exists>x. d = Fin x) \<or> d = NegInf"
  by (cases d) auto





section \<open>The smoothing loop on the numbers of JavaScript\<close>

lemma smooth_loop_js_length [simp]: "length (smooth_loop_js A i g) = length g"
  by (induction A i g rule: smooth_loop_js.induct) (subst smooth_loop_js.simps, simp)




lemma those_map_Some_nth:
  "those (map f xs) = Some ys \<Longrightarrow> length ys = length xs \<and> (\<forall>i<length xs. f (xs ! i) = Some (ys ! i))"
proof (induction xs arbitrary: ys)
  case Nil
  then show ?case by simp
next
  case (Cons x xs)
  then show ?case
    by (auto split: option.splits simp: nth_Cons')
qed

lemma those_map_None:
  "those (map f xs) = None \<longleftrightarrow> (\<exists>x\<in>set xs. f x = None)"
  by (induction xs) (auto split: option.splits)



lemma smooth_loop_js_constant:
  "\<forall>x\<in>set g. x = (a, b, Fin e) \<Longrightarrow> smooth_loop_js exact i g = g"
proof (induction exact i g rule: smooth_loop_js.induct)
  case (1 i g)
  show ?case
  proof (cases "i + 1 < length g")
    case True
    then have "g ! (i - 1) \<in> set g" "g ! i \<in> set g" "g ! (i + 1) \<in> set g" by simp_all
    with "1.prems" have el: "g ! (i - 1) = (a, b, Fin e)" "g ! i = (a, b, Fin e)"
      "g ! (i + 1) = (a, b, Fin e)" by blast+
    have new: "(fst (g ! i), fst (snd (g ! i)),
                      fdiv exact (fadd exact (fadd exact (sp_elev (g ! (i - 1))) (sp_elev (g ! i)))
                                     (sp_elev (g ! (i + 1))))
                             (Fin 3)) = g ! i"
      unfolding el by (simp add: sp_elev_def exact_def)
    have upd: "g[i := (fst (g ! i), fst (snd (g ! i)),
                      fdiv exact (fadd exact (fadd exact (sp_elev (g ! (i - 1))) (sp_elev (g ! i)))
                                     (sp_elev (g ! (i + 1))))
                             (Fin 3))] = g"
      unfolding new by (rule list_update_id)
    have ih: "smooth_loop_js exact (i + 1) g = g"
      using "1.hyps" [OF True] "1.prems" unfolding upd by blast
    show ?thesis
      using ih by (subst smooth_loop_js.simps, unfold upd, simp)
  next
    case False
    then show ?thesis by (subst smooth_loop_js.simps) simp
  qed
qed

section \<open>The fallback on the numbers of JavaScript\<close>

text \<open>
  The number of steps of a segment by the value of the computed quotient
  \<^verbatim>\<open>dist / 0.002\<close>: a finite quotient gives a finite number of steps; the quotient
  \<^verbatim>\<open>Infinity\<close> gives a loop in which a \<^verbatim>\<open>push\<close> throws; the quotient \<^verbatim>\<open>NaN\<close> gives no point.
\<close>

lemma math_max_5_int: "math_max (Fin 5) (Fin (of_int n)) = Fin (of_int (max 5 n))"
  by (simp add: math_max_def max_def)

lemma seg_steps_js_finite:
  assumes "fdiv A (wp_dist_js A a b) (spacing A) = Fin q"
  shows "seg_steps_js A a b = Fin (of_int (max 5 \<lfloor>q + 1 / 2\<rfloor>))"
  unfolding seg_steps_js_def assms math_round.simps by (rule math_max_5_int)

lemma seg_steps_js_infinite:
  "fdiv A (wp_dist_js A a b) (spacing A) = PosInf \<Longrightarrow> segment_points_js A a b = None"
  by (simp add: segment_points_js_def seg_steps_js_def math_max_def)

lemma seg_steps_js_nan:
  "fdiv A (wp_dist_js A a b) (spacing A) = NaN \<Longrightarrow> segment_points_js A a b = Some []"
  by (simp add: segment_points_js_def seg_steps_js_def math_max_def)


lemma segment_points_js_example:
  "segment_points_js exact \<lparr>lat = 40, lng = -105, elevation_ft = Some 5000\<rparr>
                           \<lparr>lat = 41, lng = -105, elevation_ft = Some 5600\<rparr>
   = Some (map (\<lambda>s. interp_point_js exact \<lparr>lat = 40, lng = -105, elevation_ft = Some 5000\<rparr>
                        \<lparr>lat = 41, lng = -105, elevation_ft = Some 5600\<rparr>
                        (fdiv exact (Fin (real s)) (Fin 500)))
             [0..<500])"
proof -
  let ?a = "\<lparr>lat = 40, lng = -105, elevation_ft = Some 5000\<rparr>"
  let ?b = "\<lparr>lat = 41, lng = -105, elevation_ft = Some 5600\<rparr>"
  have d: "wp_dist_js exact ?a ?b = Fin 1"
    by (simp add: wp_dist_js_def exact_def ex_sub_def)
  have q: "fdiv exact (wp_dist_js exact ?a ?b) (spacing exact) = Fin 500"
    unfolding d by (simp add: exact_def)
  have n: "max 5 \<lfloor>(500 :: real) + 1 / 2\<rfloor> = 500"
    by (simp add: max_def)
  have st: "seg_steps_js exact ?a ?b = Fin 500"
    using seg_steps_js_finite [OF q] unfolding n by simp
  show ?thesis
    unfolding segment_points_js_def st by (simp add: array_limit_def)
qed

lemma fallback_js_example:
  "fallback_interpolate_js exact
     [\<lparr>lat = 40, lng = -105, elevation_ft = Some 5000\<rparr>,
      \<lparr>lat = 41, lng = -105, elevation_ft = Some 5600\<rparr>]
   = Some (map (\<lambda>s. interp_point_js exact \<lparr>lat = 40, lng = -105, elevation_ft = Some 5000\<rparr>
                        \<lparr>lat = 41, lng = -105, elevation_ft = Some 5600\<rparr>
                        (fdiv exact (Fin (real s)) (Fin 500)))
             [0..<500]
           @ [(Fin 41, Fin (-105), Fin 5600)])"
  unfolding fallback_interpolate_js_def
  by (simp add: segment_points_js_example final_point_js_def elev_or_default_def array_limit_def)

section \<open>The handler on the numbers of JavaScript\<close>

lemma handler_osrm_js_ok:
  assumes "key_waypoints ri = Some wps" and "2 \<le> length wps"
  shows "handler_osrm_js A ri reply =
     map_option
       (\<lambda>g. Inr \<lparr> ans_route_name = js_or (route_name ri) (JStr ''Extracted Route''),
                    ans_location = js_or (location ri) (JStr ''Unknown''),
                    ans_confidence = js_or (confidence ri) (JNum 0.5),
                    ans_notes = js_or (notes_txt ri) (JStr []),
                    ans_total_miles_estimate = js_or (total_miles_estimate ri) (JNum 0),
                    ans_turn_by_turn = js_or (turn_by_turn ri) (JArr []),
                    ans_waypoints = g \<rparr>)
       (route_geometry_js A wps reply)"
  using assms
  by (simp add: handler_osrm_js_def validate_key_waypoints_def split: option.splits)

lemma estimate_elevation_js_length:
  "estimate_elevation_js A wps cs = Some g \<Longrightarrow> length g = length cs"
  by (auto simp: estimate_elevation_js_def split: option.splits dest: those_map_Some_nth)

lemma estimate_elevation_js_null:
  "c \<in> set cs \<Longrightarrow> c = JUndefined \<or> c = JNull \<Longrightarrow> estimate_elevation_js A wps cs = None"
proof -
  assume c: "c \<in> set cs" "c = JUndefined \<or> c = JNull"
  then have "assign_elevation_js A wps c = None"
    by (auto simp: assign_elevation_js_def)
  with c(1) have "those (map (assign_elevation_js A wps) cs) = None"
    unfolding those_map_None by blast
  then show ?thesis by (simp add: estimate_elevation_js_def)
qed

lemma route_geometry_js_fallback:
  "osrm_geometry_js A wps reply = None \<or>
   (\<exists>g. osrm_geometry_js A wps reply = Some g \<and> length g < 10) \<Longrightarrow>
   route_geometry_js A wps reply = map_option Interpolated (fallback_interpolate_js A wps)"
  by (auto simp: route_geometry_js_def)

lemma osrm_coordinates_Some:
  assumes "osrm_coordinates A d = Some cs"
  shows "js_member d ''code'' = Some (JStr ''Ok'') \<and>
         (\<exists>rs n. js_member d ''routes'' = Some rs \<and> truthy rs \<and>
                  js_member rs ''length'' = Some n \<and> js_lt (Fin 0) (to_number A n) \<and>
                  Option.bind (Option.bind (js_index rs 0) (\<lambda>r. js_member r ''geometry''))
                     (\<lambda>g. js_member g ''coordinates'') = Some (JArr cs))"
  using assms
  by (auto simp: osrm_coordinates_def split: option.splits if_splits jsval.splits)

lemma osrm_geometry_js_Some:
  assumes "osrm_geometry_js A wps reply = Some g"
  shows "\<exists>d cs. reply = ReplyJ d \<and> osrm_coordinates A d = Some cs \<and>
                estimate_elevation_js A wps cs = Some g"
  using assms
  by (auto simp: osrm_geometry_js_def split: osrm_reply_js.splits option.splits)

section \<open>Claims\<close>

text \<open>
  C1. As stated (every interior point's smoothed elevation is the mean of the three
  elevations from before the pass) the claim fails: the loop writes into the array it
  reads, so from the second interior point on the predecessor is already smoothed.
  What holds: the pass keeps the length, both end points and every latitude and
  longitude; the smoothed elevation of an interior point is the mean of the smoothed
  elevation of its predecessor and the elevations from before the pass of itself and
  its successor; for three points with elevations A, B, C the middle is (A + B + C) / 3.
\<close>

theorem smooth_elevation_in_place:
  "length (smooth_elevation g) = length g \<and>
   smooth_elevation g ! 0 = g ! 0 \<and>
   smooth_elevation g ! (length g - 1) = g ! (length g - 1) \<and>
   (\<forall>i. 1 \<le> i \<and> i + 1 < length g \<longrightarrow>
      p_lat (smooth_elevation g ! i) = p_lat (g ! i) \<and>
      p_lng (smooth_elevation g ! i) = p_lng (g ! i) \<and>
      p_elev (smooth_elevation g ! i) =
        (p_elev (smooth_elevation g ! (i - 1)) + p_elev (g ! i) + p_elev (g ! (i + 1))) / 3) \<and>
   p_elev (smooth_elevation [a, b, c] ! 1) = (p_elev a + p_elev b + p_elev c) / 3"
proof -
  have first: "smooth_loop (Suc 0) h ! 0 = h ! 0" for h
    by (rule smooth_loop_before) simp
  have three: "p_elev (smooth_loop 1 [a, b, c] ! 1) = (p_elev a + p_elev b + p_elev c) / 3"
    using smooth_loop_elev [of 1 1 "[a, b, c]"] by (simp add: first)
  show ?thesis
    unfolding smooth_elevation_def
    using three by (simp add: first smooth_loop_last smooth_loop_elev smooth_loop_lat_lng)
qed

text \<open>
  Four points with elevations 5000, 5000, 5600, 5000: index 1 gets 5200 and index 2
  gets (5200 + 5600 + 5000) / 3.
\<close>

theorem smooth_elevation_in_place_witness:
  "p_elev (smooth_elevation [(40, -105, 5000), (40, -105, 5000), (41, -105, 5600), (40, -105, 5000)] ! 2)
     = 15800 / 3"
proof -
  let ?g = "[(40, -105, 5000), (40, -105, 5000), (41, -105, 5600), (40, -105, 5000)] :: point list"
  note t = smooth_elevation_in_place [of ?g]
  from t have z: "smooth_elevation ?g ! 0 = ?g ! 0" by blast
  from t have s: "\<forall>i. 1 \<le> i \<and> i + 1 < length ?g \<longrightarrow>
      p_elev (smooth_elevation ?g ! i) =
        (p_elev (smooth_elevation ?g ! (i - 1)) + p_elev (?g ! i) + p_elev (?g ! (i + 1))) / 3"
    by blast
  from s [rule_format, of 1] z have o: "p_elev (smooth_elevation ?g ! 1) = 5200"
    by (simp add: p_elev_def)
  from s [rule_format, of 2] o show ?thesis
    by (simp add: p_elev_def)
qed

text \<open>
  Two waypoints and four road points: before the pass the elevations are 5000, 5000,
  5600, 5000, so the claim asks for 5200 at index 2; the loop stores 15800 / 3.
\<close>

theorem smoothing_snapshot_counterexample:
  "p_elev (estimate_elevation
             [\<lparr>lat = 40, lng = -105, elevation_ft = Some 5000\<rparr>,
              \<lparr>lat = 41, lng = -105, elevation_ft = Some 5600\<rparr>]
             [(-105, 40), (-105, 40), (-105, 41), (-105, 40)] ! 2)
   \<noteq> (p_elev (map (assign_elevation
             [\<lparr>lat = 40, lng = -105, elevation_ft = Some 5000\<rparr>,
              \<lparr>lat = 41, lng = -105, elevation_ft = Some 5600\<rparr>])
             [(-105, 40), (-105, 40), (-105, 41), (-105, 40)] ! 1)
      + p_elev (map (assign_elevation
             [\<lparr>lat = 40, lng = -105, elevation_ft = Some 5000\<rparr>,
              \<lparr>lat = 41, lng = -105, elevation_ft = Some 5600\<rparr>])
             [(-105, 40), (-105, 40), (-105, 41), (-105, 40)] ! 2)
      + p_elev (map (assign_elevation
             [\<lparr>lat = 40, lng = -105, elevation_ft = Some 5000\<rparr>,
              \<lparr>lat = 41, lng = -105, elevation_ft = Some 5600\<rparr>])
             [(-105, 40), (-105, 40), (-105, 41), (-105, 40)] ! 3)) / 3"
proof -
  let ?ws = "[\<lparr>lat = 40, lng = -105, elevation_ft = Some 5000\<rparr>,
              \<lparr>lat = 41, lng = -105, elevation_ft = Some 5600\<rparr>]"
  let ?g = "[(40, -105, 5000), (40, -105, 5000), (41, -105, 5600), (40, -105, 5000)] :: point list"
  have pre: "map (assign_elevation ?ws) [(-105, 40), (-105, 40), (-105, 41), (-105, 40)] = ?g"
    by (simp add: assign_elevation_def nearest_elev_def planar_dist_def below_def elev_or_default_def)
  have o: "p_elev (smooth_loop 1 ?g ! 1) = 5200"
    using smooth_loop_elev [of 1 1 ?g] smooth_loop_before [of 0 1 ?g]
    by (simp add: p_elev_def)
  have "p_elev (smooth_loop 1 ?g ! 2) = 15800 / 3"
    using smooth_loop_elev [of 1 2 ?g] o
    by (simp add: p_elev_def)
  then show ?thesis
    unfolding estimate_elevation_def smooth_elevation_def pre
    by (simp add: p_elev_def)
qed

text \<open>
  C2. As stated the claim fails: neither handler looks at the entries of the waypoint
  list, so no error is raised for an entry without numeric latitude or longitude, and
  such a list passes the only check there is. What holds, for a field that is absent
  or an array: the check of \<^verbatim>\<open>part_001\<close> answers with status 422, the message
  \<^verbatim>\<open>Could not identify enough waypoints\<close> and the notes as they are when the list is
  absent or has fewer than 2 entries, and otherwise hands the list on unchanged,
  whatever its entries are; the check of \<^verbatim>\<open>extract.js\<close> does the same with status 422,
  the message \<^verbatim>\<open>AI could not extract a valid route from this image\<close> and the notes or,
  when they are falsy, \<^verbatim>\<open>No details available\<close>.
\<close>

theorem validation_checks_length_only:
  "validate_key_waypoints None n
     = Inl (HttpError 422 ''Could not identify enough waypoints'' n) \<and>
   (length ws < 2 \<longrightarrow>
      validate_key_waypoints (Some ws) n
        = Inl (HttpError 422 ''Could not identify enough waypoints'' n)) \<and>
   (2 \<le> length ws \<longrightarrow> validate_key_waypoints (Some ws) n = Inr ws) \<and>
   validate_waypoints None n
     = Inl (HttpError 422 ''AI could not extract a valid route from this image''
              (js_or n (JStr ''No details available''))) \<and>
   (length ws < 2 \<longrightarrow>
      validate_waypoints (Some ws) n
        = Inl (HttpError 422 ''AI could not extract a valid route from this image''
                 (js_or n (JStr ''No details available'')))) \<and>
   (2 \<le> length ws \<longrightarrow> validate_waypoints (Some ws) n = Inr ws)"
  by (simp add: validate_key_waypoints_def validate_waypoints_def)

text \<open>
  Two entries pass both checks unchanged; one entry gives the 422 answer of each check.
\<close>

theorem validation_checks_length_only_witness:
  "validate_key_waypoints
     (Some [\<lparr>raw_lat = JNum 40, raw_lng = JNum (-105), raw_elevation_ft = JNum 5000\<rparr>,
            \<lparr>raw_lat = JNum 41, raw_lng = JNum (-105), raw_elevation_ft = JUndefined\<rparr>]) JUndefined
   = Inr [\<lparr>raw_lat = JNum 40, raw_lng = JNum (-105), raw_elevation_ft = JNum 5000\<rparr>,
          \<lparr>raw_lat = JNum 41, raw_lng = JNum (-105), raw_elevation_ft = JUndefined\<rparr>]
   \<and> validate_waypoints
     (Some [\<lparr>raw_lat = JNum 40, raw_lng = JNum (-105), raw_elevation_ft = JNum 5000\<rparr>,
            \<lparr>raw_lat = JNum 41, raw_lng = JNum (-105), raw_elevation_ft = JUndefined\<rparr>]) JUndefined
   = Inr [\<lparr>raw_lat = JNum 40, raw_lng = JNum (-105), raw_elevation_ft = JNum 5000\<rparr>,
          \<lparr>raw_lat = JNum 41, raw_lng = JNum (-105), raw_elevation_ft = JUndefined\<rparr>]
   \<and> validate_key_waypoints
     (Some [\<lparr>raw_lat = JNum 40, raw_lng = JNum (-105), raw_elevation_ft = JNum 5000\<rparr>]) JUndefined
   = Inl (HttpError 422 ''Could not identify enough waypoints'' JUndefined)
   \<and> validate_waypoints
     (Some [\<lparr>raw_lat = JNum 40, raw_lng = JNum (-105), raw_elevation_ft = JNum 5000\<rparr>]) JUndefined
   = Inl (HttpError 422 ''AI could not extract a valid route from this image''
            (JStr ''No details available''))"
proof -
  let ?two = "[\<lparr>raw_lat = JNum 40, raw_lng = JNum (-105), raw_elevation_ft = JNum 5000\<rparr>,
               \<lparr>raw_lat = JNum 41, raw_lng = JNum (-105), raw_elevation_ft = JUndefined\<rparr>]"
  let ?one = "[\<lparr>raw_lat = JNum 40, raw_lng = JNum (-105), raw_elevation_ft = JNum 5000\<rparr>]"
  note t2 = validation_checks_length_only [where n = JUndefined and ws = ?two]
  note t1 = validation_checks_length_only [where n = JUndefined and ws = ?one]
  have l2: "2 \<le> length ?two" and l1: "length ?one < 2" by simp_all
  have d: "js_or JUndefined (JStr ''No details available'') = JStr ''No details available''"
    by (simp add: js_or_def)
  from t2 l2 have a: "validate_key_waypoints (Some ?two) JUndefined = Inr ?two"
    and a': "validate_waypoints (Some ?two) JUndefined = Inr ?two" by blast+
  from t1 l1 have b: "validate_key_waypoints (Some ?one) JUndefined
                     = Inl (HttpError 422 ''Could not identify enough waypoints'' JUndefined)"
    and b': "validate_waypoints (Some ?one) JUndefined
                     = Inl (HttpError 422 ''AI could not extract a valid route from this image''
                              (js_or JUndefined (JStr ''No details available'')))"
    by blast+
  from a a' b b' [unfolded d] show ?thesis by blast
qed

text \<open>
  An entry whose latitude is the string \<^verbatim>\<open>"north"\<close> and whose longitude is \<^verbatim>\<open>null\<close>:
  both checks accept the list.
\<close>

theorem malformed_waypoint_accepted_counterexample:
  "\<not> is_number (raw_lat \<lparr>raw_lat = JStr ''north'', raw_lng = JNull, raw_elevation_ft = JNum 5000\<rparr>)
   \<and> \<not> is_number (raw_lng \<lparr>raw_lat = JStr ''north'', raw_lng = JNull, raw_elevation_ft = JNum 5000\<rparr>)
   \<and> validate_key_waypoints
       (Some [\<lparr>raw_lat = JStr ''north'', raw_lng = JNull, raw_elevation_ft = JNum 5000\<rparr>,
              \<lparr>raw_lat = JNum 41, raw_lng = JNum (-105), raw_elevation_ft = JNum 5100\<rparr>]) JUndefined
     = Inr [\<lparr>raw_lat = JStr ''north'', raw_lng = JNull, raw_elevation_ft = JNum 5000\<rparr>,
            \<lparr>raw_lat = JNum 41, raw_lng = JNum (-105), raw_elevation_ft = JNum 5100\<rparr>]
   \<and> validate_waypoints
       (Some [\<lparr>raw_lat = JStr ''north'', raw_lng = JNull, raw_elevation_ft = JNum 5000\<rparr>,
              \<lparr>raw_lat = JNum 41, raw_lng = JNum (-105), raw_elevation_ft = JNum 5100\<rparr>]) JUndefined
     = Inr [\<lparr>raw_lat = JStr ''north'', raw_lng = JNull, raw_elevation_ft = JNum 5000\<rparr>,
            \<lparr>raw_lat = JNum 41, raw_lng = JNum (-105), raw_elevation_ft = JNum 5100\<rparr>]"
  by (simp add: is_number_def validate_key_waypoints_def validate_waypoints_def)

text \<open>
  C3. The code of \<^verbatim>\<open>part_000\<close> announces ``ensure at least 100 points'' and misses it
  for a list of two waypoints: the step count divides the target by the number of
  points, not of segments, so the one segment gets 75 steps and the output has 76
  points. A second application resamples again, to 226 points, so applying the
  normalizer twice differs from applying it once.
\<close>

theorem density_normalize_two_points:
  "length (density_normalize [(37, -122, 10), (38, -122, 100)]) = 76 \<and>
   length (density_normalize (density_normalize [(37, -122, 10), (38, -122, 100)])) = 226 \<and>
   density_normalize (density_normalize [(37, -122, 10), (38, -122, 100)])
     \<noteq> density_normalize [(37, -122, 10), (38, -122, 100)]"
proof -
  let ?w = "[(37, -122, 10), (38, -122, 100)] :: point list"
  have l: "length ?w = 2" by simp
  have a: "length (density_normalize ?w) = 76"
    using length_density_normalize [of ?w] unfolding l steps_per_seg_2 by simp
  have b: "length (density_normalize (density_normalize ?w)) = 226"
    using length_density_normalize [of "density_normalize ?w"] unfolding a steps_per_seg_76
    by simp
  from a b have "length (density_normalize (density_normalize ?w)) \<noteq> length (density_normalize ?w)"
    by simp
  then have "density_normalize (density_normalize ?w) \<noteq> density_normalize ?w"
    by metis
  with a b show ?thesis by simp
qed







text \<open>
  C6. As stated the claim fails for one kind of malformed response: a geometry of ten
  or more coordinates that are not \<^verbatim>\<open>null\<close> but hold no numbers (numbers, strings or
  short arrays in place of the pairs) does not make the code throw; it is answered
  with status 200 and points without latitude and longitude, not with the fallback.
  What holds, for a waypoint list of two or more entries on which the fallback's
  \<^verbatim>\<open>push\<close> does not throw: the handler answers successfully with the fallback geometry
  when the request or the decoding throws, when the \<^verbatim>\<open>code\<close> of the answer is not the
  string \<^verbatim>\<open>Ok\<close> or cannot be read, when \<^verbatim>\<open>routes\<close> is falsy, empty or without a
  \<^verbatim>\<open>length\<close> above 0, when the coordinates of the first route cannot be read or are
  not an array, when a coordinate is \<^verbatim>\<open>null\<close> or \<^verbatim>\<open>undefined\<close>, and when there are fewer
  than 10 coordinates.
\<close>

theorem routing_failure_uses_fallback:
  assumes "key_waypoints ri = Some wps" and "2 \<le> length wps"
    and "fallback_interpolate_js A wps = Some fb"
    and "reply = ThrowsJ \<or>
         (\<exists>d. reply = ReplyJ d \<and>
            (js_member d ''code'' \<noteq> Some (JStr ''Ok'') \<or>
             (\<exists>rs. js_member d ''routes'' = Some rs \<and>
                (\<not> truthy rs \<or> rs = JArr [] \<or>
                 (\<exists>n. js_member rs ''length'' = Some n \<and> \<not> js_lt (Fin 0) (to_number A n)) \<or>
                 Option.bind (Option.bind (js_index rs 0) (\<lambda>r. js_member r ''geometry''))
                    (\<lambda>g. js_member g ''coordinates'') = None \<or>
                 (\<exists>c. Option.bind (Option.bind (js_index rs 0) (\<lambda>r. js_member r ''geometry''))
                         (\<lambda>g. js_member g ''coordinates'') = Some c \<and>
                      (\<forall>cs. c \<noteq> JArr cs)) \<or>
                 (\<exists>cs. Option.bind (Option.bind (js_index rs 0) (\<lambda>r. js_member r ''geometry''))
                          (\<lambda>g. js_member g ''coordinates'') = Some (JArr cs) \<and>
                       ((\<exists>x\<in>set cs. x = JUndefined \<or> x = JNull) \<or> length cs < 10))))))"
  shows "\<exists>r. handler_osrm_js A ri reply = Some (Inr r) \<and> ans_waypoints r = Interpolated fb"
proof -
  have g: "osrm_geometry_js A wps reply = None \<or>
           (\<exists>g. osrm_geometry_js A wps reply = Some g \<and> length g < 10)"
  proof (cases "osrm_geometry_js A wps reply")
    case None
    then show ?thesis by simp
  next
    case (Some g)
    from osrm_geometry_js_Some [OF Some] obtain d cs where
      d: "reply = ReplyJ d" "osrm_coordinates A d = Some cs"
         "estimate_elevation_js A wps cs = Some g"
      by blast
    from osrm_coordinates_Some [OF d(2)] obtain rs n where
      r: "js_member d ''code'' = Some (JStr ''Ok'')"
         "js_member d ''routes'' = Some rs" "truthy rs"
         "js_member rs ''length'' = Some n" "js_lt (Fin 0) (to_number A n)"
         "Option.bind (Option.bind (js_index rs 0) (\<lambda>r. js_member r ''geometry''))
            (\<lambda>g. js_member g ''coordinates'') = Some (JArr cs)"
      by blast
    have e: "rs \<noteq> JArr []"
      using r(4,5) by (auto simp: to_number_def)
    have nn: "\<not> (\<exists>x\<in>set cs. x = JUndefined \<or> x = JNull)"
      using estimate_elevation_js_null [of _ cs A wps] d(3) by auto
    from assms(4) d(1) r e nn have "length cs < 10" by auto
    with estimate_elevation_js_length [OF d(3)] Some show ?thesis by simp
  qed
  have "route_geometry_js A wps reply = Some (Interpolated fb)"
    by (simp add: route_geometry_js_fallback [OF g] assms(3))
  then show ?thesis
    by (simp add: handler_osrm_js_ok [OF assms(1,2)])
qed

text \<open>
  A thrown error, the code \<^verbatim>\<open>NoRoute\<close>, and a geometry of two coordinates, for two
  waypoints one degree apart: each time the answer holds the 501 points of the
  fallback.
\<close>

theorem routing_failure_uses_fallback_witness:
  "\<exists>r1 r2 r3.
     handler_osrm_js exact
       \<lparr>route_name = JStr ''Loop'', location = JUndefined, confidence = JNum 1,
        notes_txt = JUndefined, total_miles_estimate = JUndefined, turn_by_turn = JUndefined,
        key_waypoints = Some [\<lparr>lat = 40, lng = -105, elevation_ft = Some 5000\<rparr>,
                              \<lparr>lat = 41, lng = -105, elevation_ft = Some 5600\<rparr>]\<rparr>
       ThrowsJ = Some (Inr r1) \<and>
     handler_osrm_js exact
       \<lparr>route_name = JStr ''Loop'', location = JUndefined, confidence = JNum 1,
        notes_txt = JUndefined, total_miles_estimate = JUndefined, turn_by_turn = JUndefined,
        key_waypoints = Some [\<lparr>lat = 40, lng = -105, elevation_ft = Some 5000\<rparr>,
                              \<lparr>lat = 41, lng = -105, elevation_ft = Some 5600\<rparr>]\<rparr>
       (ReplyJ (JObj [(''code'', JStr ''NoRoute''), (''message'', JStr ''Impossible route'')]))
       = Some (Inr r2) \<and>
     handler_osrm_js exact
       \<lparr>route_name = JStr ''Loop'', location = JUndefined, confidence = JNum 1,
        notes_txt = JUndefined, total_miles_estimate = JUndefined, turn_by_turn = JUndefined,
        key_waypoints = Some [\<lparr>lat = 40, lng = -105, elevation_ft = Some 5000\<rparr>,
                              \<lparr>lat = 41, lng = -105, elevation_ft = Some 5600\<rparr>]\<rparr>
       (ReplyJ (JObj [(''code'', JStr ''Ok''),
                      (''routes'', JArr [JObj [(''geometry'',
                          JObj [(''coordinates'', JArr [JArr [JNum (-105), JNum 40],
                                                        JArr [JNum (-105), JNum 41]])])]])]))
       = Some (Inr r3) \<and>
     ans_waypoints r1 = ans_waypoints r2 \<and> ans_waypoints r2 = ans_waypoints r3 \<and>
     ans_waypoints r3
       = Interpolated
           (map (\<lambda>s. interp_point_js exact \<lparr>lat = 40, lng = -105, elevation_ft = Some 5000\<rparr>
                        \<lparr>lat = 41, lng = -105, elevation_ft = Some 5600\<rparr>
                        (fdiv exact (Fin (real s)) (Fin 500)))
              [0..<500]
            @ [(Fin 41, Fin (-105), Fin 5600)])"
proof -
  let ?wps = "[\<lparr>lat = 40, lng = -105, elevation_ft = Some 5000\<rparr>,
               \<lparr>lat = 41, lng = -105, elevation_ft = Some 5600\<rparr>]"
  let ?ri = "\<lparr>route_name = JStr ''Loop'', location = JUndefined, confidence = JNum 1,
        notes_txt = JUndefined, total_miles_estimate = JUndefined, turn_by_turn = JUndefined,
        key_waypoints = Some ?wps\<rparr>"
  let ?fb = "map (\<lambda>s. interp_point_js exact \<lparr>lat = 40, lng = -105, elevation_ft = Some 5000\<rparr>
                        \<lparr>lat = 41, lng = -105, elevation_ft = Some 5600\<rparr>
                        (fdiv exact (Fin (real s)) (Fin 500)))
              [0..<500]
            @ [(Fin 41, Fin (-105), Fin 5600)]"
  let ?d2 = "JObj [(''code'', JStr ''NoRoute''), (''message'', JStr ''Impossible route'')]"
  let ?cs = "[JArr [JNum (-105), JNum 40], JArr [JNum (-105), JNum 41]]"
  let ?rs = "JArr [JObj [(''geometry'', JObj [(''coordinates'', JArr ?cs)])]]"
  let ?d3 = "JObj [(''code'', JStr ''Ok''), (''routes'', ?rs)]"
  have k: "key_waypoints ?ri = Some ?wps" by simp
  have l: "2 \<le> length ?wps" by simp
  note fb = fallback_js_example
  have h1: "ThrowsJ = ThrowsJ \<or>
         (\<exists>d. ThrowsJ = ReplyJ d \<and>
            (js_member d ''code'' \<noteq> Some (JStr ''Ok'') \<or>
             (\<exists>rs. js_member d ''routes'' = Some rs \<and>
                (\<not> truthy rs \<or> rs = JArr [] \<or>
                 (\<exists>n. js_member rs ''length'' = Some n \<and> \<not> js_lt (Fin 0) (to_number exact n)) \<or>
                 Option.bind (Option.bind (js_index rs 0) (\<lambda>r. js_member r ''geometry''))
                    (\<lambda>g. js_member g ''coordinates'') = None \<or>
                 (\<exists>c. Option.bind (Option.bind (js_index rs 0) (\<lambda>r. js_member r ''geometry''))
                         (\<lambda>g. js_member g ''coordinates'') = Some c \<and>
                      (\<forall>cs. c \<noteq> JArr cs)) \<or>
                 (\<exists>cs. Option.bind (Option.bind (js_index rs 0) (\<lambda>r. js_member r ''geometry''))
                          (\<lambda>g. js_member g ''coordinates'') = Some (JArr cs) \<and>
                       ((\<exists>x\<in>set cs. x = JUndefined \<or> x = JNull) \<or> length cs < 10))))))"
    by simp
  have c2: "js_member ?d2 ''code'' \<noteq> Some (JStr ''Ok'')" by simp
  have h2: "ReplyJ ?d2 = ThrowsJ \<or>
         (\<exists>d. ReplyJ ?d2 = ReplyJ d \<and>
            (js_member d ''code'' \<noteq> Some (JStr ''Ok'') \<or>
             (\<exists>rs. js_member d ''routes'' = Some rs \<and>
                (\<not> truthy rs \<or> rs = JArr [] \<or>
                 (\<exists>n. js_member rs ''length'' = Some n \<and> \<not> js_lt (Fin 0) (to_number exact n)) \<or>
                 Option.bind (Option.bind (js_index rs 0) (\<lambda>r. js_member r ''geometry''))
                    (\<lambda>g. js_member g ''coordinates'') = None \<or>
                 (\<exists>c. Option.bind (Option.bind (js_index rs 0) (\<lambda>r. js_member r ''geometry''))
                         (\<lambda>g. js_member g ''coordinates'') = Some c \<and>
                      (\<forall>cs. c \<noteq> JArr cs)) \<or>
                 (\<exists>cs. Option.bind (Option.bind (js_index rs 0) (\<lambda>r. js_member r ''geometry''))
                          (\<lambda>g. js_member g ''coordinates'') = Some (JArr cs) \<and>
                       ((\<exists>x\<in>set cs. x = JUndefined \<or> x = JNull) \<or> length cs < 10))))))"
    using c2 by blast
  have r3: "js_member ?d3 ''routes'' = Some ?rs" by simp
  have g3: "Option.bind (Option.bind (js_index ?rs 0) (\<lambda>r. js_member r ''geometry''))
              (\<lambda>g. js_member g ''coordinates'') = Some (JArr ?cs)"
    by simp
  have l3: "length ?cs < 10" by simp
  have h3: "ReplyJ ?d3 = ThrowsJ \<or>
         (\<exists>d. ReplyJ ?d3 = ReplyJ d \<and>
            (js_member d ''code'' \<noteq> Some (JStr ''Ok'') \<or>
             (\<exists>rs. js_member d ''routes'' = Some rs \<and>
                (\<not> truthy rs \<or> rs = JArr [] \<or>
                 (\<exists>n. js_member rs ''length'' = Some n \<and> \<not> js_lt (Fin 0) (to_number exact n)) \<or>
                 Option.bind (Option.bind (js_index rs 0) (\<lambda>r. js_member r ''geometry''))
                    (\<lambda>g. js_member g ''coordinates'') = None \<or>
                 (\<exists>c. Option.bind (Option.bind (js_index rs 0) (\<lambda>r. js_member r ''geometry''))
                         (\<lambda>g. js_member g ''coordinates'') = Some c \<and>
                      (\<forall>cs. c \<noteq> JArr cs)) \<or>
                 (\<exists>cs. Option.bind (Option.bind (js_index rs 0) (\<lambda>r. js_member r ''geometry''))
                          (\<lambda>g. js_member g ''coordinates'') = Some (JArr cs) \<and>
                       ((\<exists>x\<in>set cs. x = JUndefined \<or> x = JNull) \<or> length cs < 10))))))"
    using r3 g3 l3 by blast
  from routing_failure_uses_fallback [OF k l fb h1] obtain r1 where
    a1: "handler_osrm_js exact ?ri ThrowsJ = Some (Inr r1)" "ans_waypoints r1 = Interpolated ?fb"
    by blast
  from routing_failure_uses_fallback [OF k l fb h2] obtain r2 where
    a2: "handler_osrm_js exact ?ri (ReplyJ ?d2) = Some (Inr r2)"
        "ans_waypoints r2 = Interpolated ?fb"
    by blast
  from routing_failure_uses_fallback [OF k l fb h3] obtain r3 where
    a3: "handler_osrm_js exact ?ri (ReplyJ ?d3) = Some (Inr r3)"
        "ans_waypoints r3 = Interpolated ?fb"
    by blast
  show ?thesis
    apply (rule exI [of _ r1])
    apply (rule exI [of _ r2])
    apply (rule exI [of _ r3])
    apply (simp only: a1 a2 a3)
    done
qed

text \<open>
  The code \<^verbatim>\<open>Ok\<close> and one route whose coordinates are the ten numbers 1 to 10: the
  answer is successful and holds ten points \<^verbatim>\<open>[undefined, undefined, 5300]\<close>.
\<close>

theorem malformed_geometry_kept_counterexample:
  "handler_osrm_js exact
       \<lparr>route_name = JStr ''Loop'', location = JUndefined, confidence = JNum 1,
        notes_txt = JUndefined, total_miles_estimate = JUndefined, turn_by_turn = JUndefined,
        key_waypoints = Some [\<lparr>lat = 40, lng = -105, elevation_ft = Some 5000\<rparr>,
                              \<lparr>lat = 41, lng = -105, elevation_ft = Some 5600\<rparr>]\<rparr>
       (ReplyJ (JObj [(''code'', JStr ''Ok''),
                      (''routes'', JArr [JObj [(''geometry'',
                          JObj [(''coordinates'',
                                 JArr [JNum 1, JNum 2, JNum 3, JNum 4, JNum 5,
                                       JNum 6, JNum 7, JNum 8, JNum 9, JNum 10])])]])]))
   = Some (Inr \<lparr>ans_route_name = JStr ''Loop'', ans_location = JStr ''Unknown'',
                ans_confidence = JNum 1, ans_notes = JStr [],
                ans_total_miles_estimate = JNum 0, ans_turn_by_turn = JArr [],
                ans_waypoints = Snapped (replicate 10 (JUndefined, JUndefined, Fin 5300))\<rparr>)"
proof -
  let ?wps = "[\<lparr>lat = 40, lng = -105, elevation_ft = Some 5000\<rparr>,
               \<lparr>lat = 41, lng = -105, elevation_ft = Some 5600\<rparr>]"
  let ?cs = "[JNum 1, JNum 2, JNum 3, JNum 4, JNum 5, JNum 6, JNum 7, JNum 8, JNum 9, JNum 10]"
  let ?d = "JObj [(''code'', JStr ''Ok''),
                  (''routes'', JArr [JObj [(''geometry'',
                      JObj [(''coordinates'', JArr ?cs)])]])]"
  have c: "osrm_coordinates exact ?d = Some ?cs"
    by (simp add: osrm_coordinates_def to_number_def)
  have n: "nearest_elev_js exact ?wps JUndefined JUndefined = 5300"
    by (simp add: nearest_elev_js_def planar_dist_js_def to_number_def exact_def ex_sub_def)
  have a: "\<And>x. assign_elevation_js exact ?wps (JNum x) = Some (JUndefined, JUndefined, Fin 5300)"
    by (simp add: assign_elevation_js_def n)
  have t: "those (map (assign_elevation_js exact ?wps) ?cs)
           = Some (replicate 10 (JUndefined, JUndefined, Fin 5300))"
    by (simp add: a numeral_eq_Suc)
  have s: "smooth_loop_js exact 1 (replicate 10 (JUndefined, JUndefined, Fin 5300))
           = replicate 10 (JUndefined, JUndefined, Fin 5300)"
    by (rule smooth_loop_js_constant) simp
  have g: "osrm_geometry_js exact ?wps (ReplyJ ?d)
           = Some (replicate 10 (JUndefined, JUndefined, Fin 5300))"
    unfolding osrm_geometry_js_def estimate_elevation_js_def
    by (simp only: osrm_reply_js.case c option.case t s)
  have r: "route_geometry_js exact ?wps (ReplyJ ?d)
           = Some (Snapped (replicate 10 (JUndefined, JUndefined, Fin 5300)))"
    by (simp add: route_geometry_js_def g)
  show ?thesis
    by (simp add: handler_osrm_js_def validate_key_waypoints_def r js_or_def)
qed

text \<open>
  C7. As stated the claim fails for the boundary confidence 0: \<^verbatim>\<open>confidence || 0.5\<close>
  answers 0.5. What holds, for a successful answer of the handlers of \<^verbatim>\<open>part_001\<close> and
  \<^verbatim>\<open>extract.js\<close>: a metadata field whose value is truthy (a nonempty string, a number
  other than 0) is copied unchanged, in particular every confidence other than 0; a
  field that is missing or \<^verbatim>\<open>null\<close> gets its placeholder, name \<^verbatim>\<open>Extracted Route\<close>,
  location \<^verbatim>\<open>Unknown\<close>, confidence 0.5, notes the empty string; notes given as a
  string are always copied unchanged.
\<close>

theorem metadata_defaults:
  "(handler_osrm ri reply = Inr r \<longrightarrow>
      (truthy (route_name ri) \<longrightarrow> res_route_name r = route_name ri) \<and>
      (route_name ri = JUndefined \<or> route_name ri = JNull \<longrightarrow>
         res_route_name r = JStr ''Extracted Route'') \<and>
      (truthy (location ri) \<longrightarrow> res_location r = location ri) \<and>
      (location ri = JUndefined \<or> location ri = JNull \<longrightarrow> res_location r = JStr ''Unknown'') \<and>
      (truthy (confidence ri) \<longrightarrow> res_confidence r = confidence ri) \<and>
      (\<forall>c. confidence ri = JNum c \<and> c \<noteq> 0 \<longrightarrow> res_confidence r = JNum c) \<and>
      (confidence ri = JUndefined \<or> confidence ri = JNull \<longrightarrow> res_confidence r = JNum 0.5) \<and>
      (\<forall>s. notes_txt ri = JStr s \<longrightarrow> res_notes r = JStr s) \<and>
      (notes_txt ri = JUndefined \<or> notes_txt ri = JNull \<longrightarrow> res_notes r = JStr [])) \<and>
   (handler_extract rd = Inr r' \<longrightarrow>
      (truthy (route_name rd) \<longrightarrow> res_route_name r' = route_name rd) \<and>
      (route_name rd = JUndefined \<or> route_name rd = JNull \<longrightarrow>
         res_route_name r' = JStr ''Extracted Route'') \<and>
      (truthy (location rd) \<longrightarrow> res_location r' = location rd) \<and>
      (location rd = JUndefined \<or> location rd = JNull \<longrightarrow> res_location r' = JStr ''Unknown'') \<and>
      (truthy (confidence rd) \<longrightarrow> res_confidence r' = confidence rd) \<and>
      (\<forall>c. confidence rd = JNum c \<and> c \<noteq> 0 \<longrightarrow> res_confidence r' = JNum c) \<and>
      (confidence rd = JUndefined \<or> confidence rd = JNull \<longrightarrow> res_confidence r' = JNum 0.5) \<and>
      (\<forall>s. notes_txt rd = JStr s \<longrightarrow> res_notes r' = JStr s) \<and>
      (notes_txt rd = JUndefined \<or> notes_txt rd = JNull \<longrightarrow> res_notes r' = JStr []))"
proof (rule conjI; rule impI)
  assume h: "handler_osrm ri reply = Inr r"
  from handler_osrm_Inr [OF h] obtain wps where "key_waypoints ri = Some wps" "2 \<le> length wps"
    by blast
  from handler_osrm_ok [OF this, of reply] h
  have r: "res_route_name r = js_or (route_name ri) (JStr ''Extracted Route'')"
          "res_location r = js_or (location ri) (JStr ''Unknown'')"
          "res_confidence r = js_or (confidence ri) (JNum 0.5)"
          "res_notes r = js_or (notes_txt ri) (JStr [])"
    by auto
  show "(truthy (route_name ri) \<longrightarrow> res_route_name r = route_name ri) \<and>
      (route_name ri = JUndefined \<or> route_name ri = JNull \<longrightarrow>
         res_route_name r = JStr ''Extracted Route'') \<and>
      (truthy (location ri) \<longrightarrow> res_location r = location ri) \<and>
      (location ri = JUndefined \<or> location ri = JNull \<longrightarrow> res_location r = JStr ''Unknown'') \<and>
      (truthy (confidence ri) \<longrightarrow> res_confidence r = confidence ri) \<and>
      (\<forall>c. confidence ri = JNum c \<and> c \<noteq> 0 \<longrightarrow> res_confidence r = JNum c) \<and>
      (confidence ri = JUndefined \<or> confidence ri = JNull \<longrightarrow> res_confidence r = JNum 0.5) \<and>
      (\<forall>s. notes_txt ri = JStr s \<longrightarrow> res_notes r = JStr s) \<and>
      (notes_txt ri = JUndefined \<or> notes_txt ri = JNull \<longrightarrow> res_notes r = JStr [])"
    unfolding r by (auto simp: js_or_def)
next
  assume h: "handler_extract rd = Inr r'"
  from handler_extract_Inr [OF h] obtain wps where "r' = assemble rd (interpolate_sparse wps)"
    by blast
  then have r: "res_route_name r' = js_or (route_name rd) (JStr ''Extracted Route'')"
          "res_location r' = js_or (location rd) (JStr ''Unknown'')"
          "res_confidence r' = js_or (confidence rd) (JNum 0.5)"
          "res_notes r' = js_or (notes_txt rd) (JStr [])"
    by (simp_all add: assemble_def)
  show "(truthy (route_name rd) \<longrightarrow> res_route_name r' = route_name rd) \<and>
      (route_name rd = JUndefined \<or> route_name rd = JNull \<longrightarrow>
         res_route_name r' = JStr ''Extracted Route'') \<and>
      (truthy (location rd) \<longrightarrow> res_location r' = location rd) \<and>
      (location rd = JUndefined \<or> location rd = JNull \<longrightarrow> res_location r' = JStr ''Unknown'') \<and>
      (truthy (confidence rd) \<longrightarrow> res_confidence r' = confidence rd) \<and>
      (\<forall>c. confidence rd = JNum c \<and> c \<noteq> 0 \<longrightarrow> res_confidence r' = JNum c) \<and>
      (confidence rd = JUndefined \<or> confidence rd = JNull \<longrightarrow> res_confidence r' = JNum 0.5) \<and>
      (\<forall>s. notes_txt rd = JStr s \<longrightarrow> res_notes r' = JStr s) \<and>
      (notes_txt rd = JUndefined \<or> notes_txt rd = JNull \<longrightarrow> res_notes r' = JStr [])"
    unfolding r by (auto simp: js_or_def)
qed

text \<open>A name, the confidence 1, empty notes and no location.\<close>

theorem metadata_defaults_witness:
  "\<exists>r. handler_osrm
          \<lparr>route_name = JStr ''Flagstaff Loop'', location = JUndefined, confidence = JNum 1,
           notes_txt = JStr [], total_miles_estimate = JUndefined,
           turn_by_turn = JUndefined,
           key_waypoints = Some [\<lparr>lat = 40, lng = -105, elevation_ft = Some 5000\<rparr>,
                                 \<lparr>lat = 41, lng = -105, elevation_ft = Some 5600\<rparr>]\<rparr>
          Throws = Inr r
      \<and> res_route_name r = JStr ''Flagstaff Loop''
      \<and> res_location r = JStr ''Unknown''
      \<and> res_confidence r = JNum 1
      \<and> res_notes r = JStr []"
proof -
  let ?ws = "[\<lparr>lat = 40, lng = -105, elevation_ft = Some 5000\<rparr>,
              \<lparr>lat = 41, lng = -105, elevation_ft = Some 5600\<rparr>]"
  let ?ri = "\<lparr>route_name = JStr ''Flagstaff Loop'', location = JUndefined, confidence = JNum 1,
           notes_txt = JStr [], total_miles_estimate = JUndefined,
           turn_by_turn = JUndefined, key_waypoints = Some ?ws\<rparr>"
  have "key_waypoints ?ri = Some ?ws" and "2 \<le> length ?ws" by simp_all
  from handler_osrm_ok [OF this, of Throws]
  obtain r where r: "handler_osrm ?ri Throws = Inr r" by blast
  have f: "truthy (route_name ?ri)" "location ?ri = JUndefined"
          "confidence ?ri = JNum 1 \<and> (1::real) \<noteq> 0" "notes_txt ?ri = JStr []"
    by simp_all
  note t = metadata_defaults [where ri = ?ri and reply = Throws and r = r,
             THEN conjunct1, rule_format, OF r]
  from t f(1) have a: "res_route_name r = route_name ?ri" by blast
  from t f(2) have b: "res_location r = JStr ''Unknown''" by blast
  from t f(3) have c: "res_confidence r = JNum 1" by blast
  from t f(4) have d: "res_notes r = JStr []" by blast
  from r a b c d show ?thesis by simp
qed

text \<open>The confidence 0 comes back as 0.5.\<close>

theorem confidence_zero_counterexample:
  "\<exists>r. handler_osrm
          \<lparr>route_name = JStr ''Flagstaff Loop'', location = JStr ''Boulder, CO'',
           confidence = JNum 0, notes_txt = JStr [], total_miles_estimate = JUndefined,
           turn_by_turn = JUndefined,
           key_waypoints = Some [\<lparr>lat = 40, lng = -105, elevation_ft = Some 5000\<rparr>,
                                 \<lparr>lat = 41, lng = -105, elevation_ft = Some 5600\<rparr>]\<rparr>
          Throws = Inr r
      \<and> res_confidence r = JNum 0.5
      \<and> res_confidence r \<noteq> JNum 0"
proof -
  let ?ws = "[\<lparr>lat = 40, lng = -105, elevation_ft = Some 5000\<rparr>,
              \<lparr>lat = 41, lng = -105, elevation_ft = Some 5600\<rparr>]"
  let ?ri = "\<lparr>route_name = JStr ''Flagstaff Loop'', location = JStr ''Boulder, CO'',
           confidence = JNum 0, notes_txt = JStr [], total_miles_estimate = JUndefined,
           turn_by_turn = JUndefined, key_waypoints = Some ?ws\<rparr>"
  have "key_waypoints ?ri = Some ?ws" and "2 \<le> length ?ws" by simp_all
  from handler_osrm_ok [OF this, of Throws] show ?thesis
    by (simp add: js_or_def)
qed






text \<open>
  C10. The elevation stages change elevations only. Nearest-waypoint assignment yields
  one point per coordinate of the routing engine, with latitude and longitude the
  swapped pair; smoothing keeps the number of points and every latitude and longitude.
  So on the road-snapping path (status \<^verbatim>\<open>Ok\<close>, a first route of 10 or more coordinates)
  the points of the answer are, in order, the swapped coordinates of the routing
  engine.
\<close>

theorem snapped_coordinates_unchanged:
  "length (map (assign_elevation wps) cs) = length cs \<and>
   map (\<lambda>p. (p_lat p, p_lng p)) (map (assign_elevation wps) cs) = map (\<lambda>c. (snd c, fst c)) cs \<and>
   length (smooth_elevation g) = length g \<and>
   map (\<lambda>p. (p_lat p, p_lng p)) (smooth_elevation g) = map (\<lambda>p. (p_lat p, p_lng p)) g \<and>
   (key_waypoints ri = Some wps \<and> 2 \<le> length wps \<and> code d = ''Ok'' \<and>
    routes d = Some (Route (Some cs) # rest) \<and> 10 \<le> length cs \<longrightarrow>
      (\<exists>r. handler_osrm ri (Reply d) = Inr r \<and>
           length (res_waypoints r) = length cs \<and>
           map (\<lambda>p. (p_lat p, p_lng p)) (res_waypoints r) = map (\<lambda>c. (snd c, fst c)) cs))"
proof -
  have h: "\<exists>r. handler_osrm ri (Reply d) = Inr r \<and>
           length (res_waypoints r) = length cs \<and>
           map (\<lambda>p. (p_lat p, p_lng p)) (res_waypoints r) = map (\<lambda>c. (snd c, fst c)) cs"
    if a: "key_waypoints ri = Some wps" "2 \<le> length wps"
      and b: "code d = ''Ok''" "routes d = Some (Route (Some cs) # rest)" "10 \<le> length cs"
    by (simp add: handler_osrm_ok [OF a] osrm_geometry_snapped [OF b]
          length_estimate_elevation estimate_elevation_coords)
  have s: "map (\<lambda>p. (p_lat p, p_lng p)) (smooth_elevation g) = map (\<lambda>p. (p_lat p, p_lng p)) g"
    unfolding smooth_elevation_def by (rule smooth_loop_coords)
  have l: "length (smooth_elevation g) = length g"
    by (simp add: smooth_elevation_def)
  from h s l assign_elevation_coords [of wps cs] show ?thesis by simp
qed

text \<open>A geometry of ten coordinates comes back with its ten swapped pairs.\<close>

theorem snapped_coordinates_unchanged_witness:
  "\<exists>r. handler_osrm
          \<lparr>route_name = JStr ''Loop'', location = JUndefined, confidence = JNum 1,
           notes_txt = JUndefined, total_miles_estimate = JUndefined,
           turn_by_turn = JUndefined,
           key_waypoints = Some [\<lparr>lat = 40, lng = -105, elevation_ft = Some 5000\<rparr>,
                                 \<lparr>lat = 41, lng = -105, elevation_ft = Some 5600\<rparr>]\<rparr>
          (Reply \<lparr>code = ''Ok'',
                  routes = Some [Route (Some [(-105, 40), (-105, 40.1), (-105, 40.2), (-105, 40.3),
                                              (-105, 40.4), (-105, 40.5), (-105, 40.6), (-105, 40.7),
                                              (-105, 40.8), (-105, 41)])]\<rparr>) = Inr r
      \<and> length (res_waypoints r) = 10
      \<and> map (\<lambda>p. (p_lat p, p_lng p)) (res_waypoints r)
          = [(40, -105), (40.1, -105), (40.2, -105), (40.3, -105), (40.4, -105),
             (40.5, -105), (40.6, -105), (40.7, -105), (40.8, -105), (41, -105)]"
proof -
  let ?ws = "[\<lparr>lat = 40, lng = -105, elevation_ft = Some 5000\<rparr>,
              \<lparr>lat = 41, lng = -105, elevation_ft = Some 5600\<rparr>]"
  let ?ri = "\<lparr>route_name = JStr ''Loop'', location = JUndefined, confidence = JNum 1,
           notes_txt = JUndefined, total_miles_estimate = JUndefined,
           turn_by_turn = JUndefined, key_waypoints = Some ?ws\<rparr>"
  let ?cs = "[(-105, 40), (-105, 40.1), (-105, 40.2), (-105, 40.3),
              (-105, 40.4), (-105, 40.5), (-105, 40.6), (-105, 40.7),
              (-105, 40.8), (-105, 41)] :: (real \<times> real) list"
  let ?d = "\<lparr>code = ''Ok'', routes = Some [Route (Some ?cs)]\<rparr>"
  have p: "key_waypoints ?ri = Some ?ws \<and> 2 \<le> length ?ws \<and> code ?d = ''Ok'' \<and>
           routes ?d = Some (Route (Some ?cs) # []) \<and> 10 \<le> length ?cs"
    by simp
  from snapped_coordinates_unchanged
         [where ri = ?ri and wps = ?ws and d = ?d and cs = ?cs and rest = "[]"] p
  obtain r where r: "handler_osrm ?ri (Reply ?d) = Inr r"
      "length (res_waypoints r) = length ?cs"
      "map (\<lambda>p. (p_lat p, p_lng p)) (res_waypoints r) = map (\<lambda>c. (snd c, fst c)) ?cs"
    by blast
  have l: "length ?cs = 10" by simp
  have m: "map (\<lambda>c. (snd c, fst c)) ?cs
             = [(40, -105), (40.1, -105), (40.2, -105), (40.3, -105), (40.4, -105),
                (40.5, -105), (40.6, -105), (40.7, -105), (40.8, -105), (41, -105)]"
    by simp
  from r show ?thesis unfolding l m by (intro exI [of _ r] conjI)
qed

end
